theory Spec2Isabelle
  imports Complex_Main "HOL-Library.Word" "HOL-Library.Multiset"
begin

unbundle bit_operations_syntax

section \<open>JavaScript values\<close>

text \<open>
  The server is JavaScript. Values that travel through the check pipeline (upstream
  responses after \<^verbatim>\<open>JSON.parse\<close>, model entries, stored JSON columns) are values of
  \<open>jsval\<close>. Numbers are idealised: a finite number is an exact rational (no
  rounding), \<open>JNaN\<close> is NaN, and the infinities are left out. Strings are byte strings
  (UTF-8). The pairs of an object are kept in
  property enumeration order. A \<open>jsval\<close> is the content of a value; where the code
  compares by reference (the keys of a \<^verbatim>\<open>Map\<close>), the address of an object is kept
  beside its content.
\<close>

datatype jsval =
    JUndefined
  | JNull
  | JBool bool
  | JNum rat
  | JNaN
  | JStr string
  | JArr "jsval list"
  | JObj "(string \<times> jsval) list"

text \<open>An exception object; only its \<^verbatim>\<open>message\<close> is observed by the code.\<close>

datatype exn = Exn string

fun message :: "exn \<Rightarrow> string" where
  "message (Exn s) = s"

text \<open>Truthiness, as \<^verbatim>\<open>!v\<close>, \<^verbatim>\<open>a || b\<close> and \<^verbatim>\<open>a && b\<close> read it.\<close>

fun truthy :: "jsval \<Rightarrow> bool" where
  "truthy JUndefined = False"
| "truthy JNull = False"
| "truthy (JBool b) = b"
| "truthy (JNum n) = (n \<noteq> 0)"
| "truthy JNaN = False"
| "truthy (JStr s) = (s \<noteq> [])"
| "truthy (JArr xs) = True"
| "truthy (JObj kvs) = True"

fun nullish :: "jsval \<Rightarrow> bool" where
  "nullish JUndefined = True"
| "nullish JNull = True"
| "nullish v = False"

text \<open>
  Property read \<^verbatim>\<open>v.k\<close> for a name \<open>k\<close> that is neither an index nor \<^verbatim>\<open>length\<close>:
  an object's own property, \<^verbatim>\<open>undefined\<close> on every other value. On \<^verbatim>\<open>null\<close>
  and \<^verbatim>\<open>undefined\<close> JavaScript throws a TypeError instead; every caller below tests
  \<open>nullish\<close> first where that can happen.
\<close>

fun jsget :: "jsval \<Rightarrow> string \<Rightarrow> jsval" where
  "jsget (JObj kvs) k = (case map_of kvs k of Some v \<Rightarrow> v | None \<Rightarrow> JUndefined)"
| "jsget v k = JUndefined"

text \<open>\<^verbatim>\<open>a || b\<close> on values, and on a nullable string column with a string default.\<close>

definition jsor :: "jsval \<Rightarrow> jsval \<Rightarrow> jsval" where
  "jsor a b = (if truthy a then a else b)"

definition truthyStr :: "string option \<Rightarrow> bool" where
  "truthyStr s = (case s of None \<Rightarrow> False | Some t \<Rightarrow> t \<noteq> [])"

definition strOr :: "string option \<Rightarrow> string \<Rightarrow> string" where
  "strOr s d = (case s of None \<Rightarrow> d | Some t \<Rightarrow> if t = [] then d else t)"

section \<open>Sites\<close>

text \<open>
  A row of the Site table, with the columns the checking code reads. A nullable column
  is an \<open>option\<close>.
\<close>

record site =
  id_site :: string
  name :: string
  baseUrl :: string
  apiType :: "string option"
  apiKeyEnc :: "string option"
  userId :: "string option"
  unlimitedQuota :: bool
  billingUrl :: "string option"
  billingAuthType :: "string option"
  billingAuthValue :: "string option"
  billingLimitField :: "string option"
  billingUsageField :: "string option"
  enableCheckIn :: bool
  checkInMode :: "string option"
  scheduleCron :: "string option"
  timezone :: "string option"

section \<open>checkin.js: which parts of a check run\<close>

definition shouldCheckIn :: "site \<Rightarrow> bool \<Rightarrow> bool" where
  "shouldCheckIn s isManual =
     (if isManual then apiType s = Some ''veloera'' \<and> enableCheckIn s
      else if apiType s \<noteq> Some ''veloera'' \<or> \<not> enableCheckIn s then False
      else let mode = strOr (checkInMode s) ''both''
           in mode = ''checkin'' \<or> mode = ''both'')"

definition shouldCheckModels :: "site \<Rightarrow> bool \<Rightarrow> bool" where
  "shouldCheckModels s isManual =
     (if isManual then True
      else let mode = strOr (checkInMode s) ''both''
           in mode = ''model'' \<or> mode = ''both'')"

section \<open>run.js: the diff of two model lists\<close>

text \<open>
  A JavaScript \<^verbatim>\<open>Map\<close> is an association list in insertion order: \<^verbatim>\<open>set\<close> on a
  key that is present replaces the value where the key stands, on a new key it appends.
  \<^verbatim>\<open>new Map(entries)\<close> sets the entries from left to right.
\<close>

fun mapSet :: "'k \<Rightarrow> 'v \<Rightarrow> ('k \<times> 'v) list \<Rightarrow> ('k \<times> 'v) list" where
  "mapSet k v [] = [(k, v)]"
| "mapSet k v ((k', v') # kvs) =
     (if k' = k then (k, v) # kvs else (k', v') # mapSet k v kvs)"

definition newMap :: "('k \<times> 'v) list \<Rightarrow> ('k \<times> 'v) list" where
  "newMap es = foldl (\<lambda>m (k, v). mapSet k v m) [] es"

definition mapHas :: "('k \<times> 'v) list \<Rightarrow> 'k \<Rightarrow> bool" where
  "mapHas m k = (k \<in> set (map fst m))"

text \<open>
  The keys of a \<^verbatim>\<open>Map\<close> are compared by SameValueZero: two primitives are the same
  key when they are the same value (NaN is one key, and there is one zero), two objects
  or arrays only when they are one object, whatever they contain. A key is therefore a
  primitive value or the address of an object.
\<close>

datatype key = Prim jsval | Ref nat

definition isObject :: "jsval \<Rightarrow> bool" where
  "isObject v = (case v of JObj kvs \<Rightarrow> True | JArr xs \<Rightarrow> True | _ \<Rightarrow> False)"

text \<open>
  An entry of a list handed to \<open>computeDiff\<close>: the model, and the address of the
  object or array that its \<^verbatim>\<open>id\<close> is (read only when the id is one). Two entries whose
  ids are one and the same object have the same \<open>idRef\<close>.
\<close>

record located =
  entry :: jsval
  idRef :: nat

definition idOf :: "jsval \<Rightarrow> jsval" where
  "idOf m = jsget m ''id''"

definition keyOf :: "located \<Rightarrow> key" where
  "keyOf h = (if isObject (idOf (entry h)) then Ref (idRef h) else Prim (idOf (entry h)))"

record diff =
  added :: "located list"
  removed :: "located list"
  changed :: "located list"

text \<open>
  \<^verbatim>\<open>prevList.map((m) => [m.id, m])\<close> throws on an entry that is \<^verbatim>\<open>null\<close> or
  \<^verbatim>\<open>undefined\<close>; the two loops then walk the maps in insertion order and push the
  entries themselves.
\<close>

definition computeDiff :: "located list \<Rightarrow> located list \<Rightarrow> exn + diff" where
  "computeDiff prevList nextList =
     (if \<exists>m \<in> set (prevList @ nextList). nullish (entry m)
      then Inl (Exn ''Cannot read properties of null or undefined (reading id)'')
      else
        let prevMap = newMap (map (\<lambda>m. (keyOf m, m)) prevList);
            nextMap = newMap (map (\<lambda>m. (keyOf m, m)) nextList)
        in Inr \<lparr> added = map snd (filter (\<lambda>(k, m). \<not> mapHas prevMap k) nextMap),
                 removed = map snd (filter (\<lambda>(k, m). \<not> mapHas nextMap k) prevMap),
                 changed = [] \<rparr>)"

text \<open>
  One direction of the diff: the entries the Map of \<open>B\<close> holds under keys that the
  Map of \<open>A\<close> does not have.
\<close>

definition keyedDiff :: "located list \<Rightarrow> located list \<Rightarrow> located list" where
  "keyedDiff A B =
     map snd (filter (\<lambda>(k, m). \<not> mapHas (newMap (map (\<lambda>m. (keyOf m, m)) A)) k)
       (newMap (map (\<lambda>m. (keyOf m, m)) B)))"

text \<open>
  Lists made apart from every other list (by \<^verbatim>\<open>JSON.parse\<close>, or by a fetch function
  from a parsed body): entry \<open>i\<close> has its id, when that is an object, at address
  \<open>base + i\<close>.
\<close>

definition locate :: "nat \<Rightarrow> jsval list \<Rightarrow> located list" where
  "locate base xs = map (\<lambda>(i, m). \<lparr> entry = m, idRef = i \<rparr>) (enumerate base xs)"

section \<open>crypto.js: the secrets codec\<close>

text \<open>
  A \<^verbatim>\<open>Buffer\<close> is a list of bytes. A string is turned into bytes and back as it stands
  (its characters are the UTF-8 bytes); \<^verbatim>\<open>toString('utf8')\<close> on bytes that are not
  valid UTF-8 is not modelled.
\<close>

type_synonym byte = "8 word"

definition utf8_bytes :: "string \<Rightarrow> byte list" where
  "utf8_bytes s = map (\<lambda>c. of_nat (of_char c)) s"

definition bytes_utf8 :: "byte list \<Rightarrow> string" where
  "bytes_utf8 bs = map (\<lambda>b. char_of (unat b)) bs"

subsection \<open>Base64, as \<^verbatim>\<open>Buffer\<close> writes and reads it\<close>

definition b64chars :: string where
  "b64chars = ''ABCDEFGHIJKLMNOPQRSTUVWXYZabcdefghijklmnopqrstuvwxyz0123456789+/''"

definition b64char :: "nat \<Rightarrow> char" where
  "b64char i = b64chars ! i"

text \<open>\<^verbatim>\<open>buf.toString('base64')\<close>: three bytes give four characters, the rest is padded.\<close>

fun b64enc :: "byte list \<Rightarrow> string" where
  "b64enc [] = []"
| "b64enc [a] =
     (let n = unat a * 65536
      in [b64char (n div 262144), b64char (n div 4096 mod 64), CHR ''='', CHR ''=''])"
| "b64enc [a, b] =
     (let n = unat a * 65536 + unat b * 256
      in [b64char (n div 262144), b64char (n div 4096 mod 64), b64char (n div 64 mod 64),
          CHR ''=''])"
| "b64enc (a # b # c # rest) =
     (let n = unat a * 65536 + unat b * 256 + unat c
      in [b64char (n div 262144), b64char (n div 4096 mod 64), b64char (n div 64 mod 64),
          b64char (n mod 64)] @ b64enc rest)"

fun indexOf :: "'a \<Rightarrow> 'a list \<Rightarrow> nat option" where
  "indexOf x [] = None"
| "indexOf x (y # ys) = (if x = y then Some 0 else map_option Suc (indexOf x ys))"

text \<open>
  \<^verbatim>\<open>Buffer.from(text, 'base64')\<close> never throws on a string: it reads both the standard
  and the URL-safe alphabet, passes over characters of neither, and stops at the first
  padding character. Nothing below depends on what it makes of text that \<open>b64enc\<close>
  did not write.
\<close>

definition b64idx :: "char \<Rightarrow> nat option" where
  "b64idx c = (if c = CHR ''-'' then Some 62 else if c = CHR ''_'' then Some 63
               else indexOf c b64chars)"

fun sextetsToBytes :: "nat list \<Rightarrow> byte list" where
  "sextetsToBytes (a # b # c # d # rest) =
     (let n = a * 262144 + b * 4096 + c * 64 + d
      in [of_nat (n div 65536), of_nat (n div 256 mod 256), of_nat (n mod 256)]
         @ sextetsToBytes rest)"
| "sextetsToBytes [a, b, c] =
     (let n = a * 262144 + b * 4096 + c * 64
      in [of_nat (n div 65536), of_nat (n div 256 mod 256)])"
| "sextetsToBytes [a, b] = [of_nat ((a * 262144 + b * 4096) div 65536)]"
| "sextetsToBytes _ = []"

definition b64sextets :: "string \<Rightarrow> nat list" where
  "b64sextets s = List.map_filter b64idx (takeWhile (\<lambda>c. c \<noteq> CHR ''='') s)"

definition b64dec :: "string \<Rightarrow> byte list" where
  "b64dec s = sextetsToBytes (b64sextets s)"

subsection \<open>The cipher\<close>

text \<open>
  \<^verbatim>\<open>aes-256-gcm\<close> comes from the runtime's crypto module, not from this repository.
  It enters as two functions of key, nonce and data: \<open>ctr\<close>, the counter-mode
  transformation that both encrypts and decrypts, and \<open>ghash_tag\<close>, the authentication
  tag of a ciphertext. A decipher accepts a tag of 4, 8 or 12 to 16 bytes and compares
  it with the tag of the ciphertext cut to that length; \<^verbatim>\<open>final()\<close> throws when they
  differ.
\<close>

record aes_gcm =
  ctr :: "byte list \<Rightarrow> byte list \<Rightarrow> byte list \<Rightarrow> byte list"
  ghash_tag :: "byte list \<Rightarrow> byte list \<Rightarrow> byte list \<Rightarrow> byte list"

text \<open>\<^verbatim>\<open>payload.split(':')\<close>: the segments between colons, at least one.\<close>

fun splitOn :: "char \<Rightarrow> string \<Rightarrow> string list" where
  "splitOn c [] = [[]]"
| "splitOn c (x # xs) =
     (if x = c then [] # splitOn c xs
      else (case splitOn c xs of s # ss \<Rightarrow> (x # s) # ss | [] \<Rightarrow> [[x]]))"

text \<open>
  \<open>encrypt\<close>. \<open>KEY\<close> is the module's key, derived once when the module loads; \<open>iv\<close>
  is the result of \<^verbatim>\<open>crypto.randomBytes(12)\<close>.
\<close>

definition encrypt :: "aes_gcm \<Rightarrow> byte list \<Rightarrow> byte list \<Rightarrow> string \<Rightarrow> string" where
  "encrypt G KEY iv plaintext =
     (let ct = ctr G KEY iv (utf8_bytes plaintext);
          tag = ghash_tag G KEY iv ct;
          payload = b64enc (iv @ tag @ ct)
      in ''v1:'' @ payload)"

text \<open>
  \<open>decrypt\<close>. The argument is a nullable column: \<open>None\<close> stands for \<^verbatim>\<open>null\<close> and
  \<^verbatim>\<open>undefined\<close>. Every \<^verbatim>\<open>throw\<close> of the function and of the calls it makes is an
  \<open>Inl\<close>: the version test, \<^verbatim>\<open>Buffer.from(undefined)\<close> when the payload has no colon,
  \<^verbatim>\<open>createDecipheriv\<close> (key and nonce length), \<^verbatim>\<open>setAuthTag\<close> (tag length) and
  \<^verbatim>\<open>final()\<close> (tag mismatch).
\<close>

definition decrypt :: "aes_gcm \<Rightarrow> byte list \<Rightarrow> string option \<Rightarrow> exn + string" where
  "decrypt G KEY payload =
     (case payload of
        None \<Rightarrow> Inr []
      | Some p \<Rightarrow>
          if p = [] then Inr []
          else case splitOn CHR '':'' p of
            [] \<Rightarrow> Inl (Exn ''Unsupported enc version'')
          | ver # rest \<Rightarrow>
              if ver \<noteq> ''v1'' then Inl (Exn ''Unsupported enc version'')
              else case rest of
                [] \<Rightarrow> Inl (Exn ''The first argument must be of type string'')
              | data # _ \<Rightarrow>
                  let buf = b64dec data;
                      iv = take 12 buf;
                      tag = take 16 (drop 12 buf);
                      ct = drop 28 buf
                  in if length KEY \<noteq> 32 then Inl (Exn ''Invalid key length'')
                     else if iv = [] then Inl (Exn ''Invalid initialization vector'')
                     else if length tag \<notin> {4, 8, 12, 13, 14, 15, 16}
                       then Inl (Exn ''Invalid authentication tag length'')
                     else if tag \<noteq> take (length tag) (ghash_tag G KEY iv ct)
                       then Inl (Exn ''Unsupported state or unable to authenticate data'')
                     else Inr (bytes_utf8 (ctr G KEY iv ct)))"

text \<open>
  Tampering, for the statement of claim C7: bit \<open>n\<close> of a byte string flipped, and an
  envelope rebuilt with bit \<open>n\<close> of its authentication tag (bytes 12 to 27) flipped.
\<close>

definition flipBit :: "nat \<Rightarrow> byte list \<Rightarrow> byte list" where
  "flipBit n bs = bs[n div 8 := (bs ! (n div 8)) XOR push_bit (n mod 8) 1]"

definition flipTagBit :: "nat \<Rightarrow> string \<Rightarrow> string" where
  "flipTagBit n env =
     (case splitOn CHR '':'' env of
        [ver, data] \<Rightarrow>
          (let buf = b64dec data
           in ver @ '':'' @ b64enc (take 12 buf @ flipBit n (take 16 (drop 12 buf)) @ drop 28 buf))
      | _ \<Rightarrow> env)"

section \<open>The runtime's functions\<close>

text \<open>
  Four functions of the JavaScript runtime are taken as given, since what they compute
  is fixed by tables and algorithms outside the repository: the text of a number
  (\<^verbatim>\<open>String(n)\<close>, the same in \<^verbatim>\<open>JSON.stringify\<close>), the number a string converts to
  (\<open>None\<close> for NaN), \<^verbatim>\<open>parseFloat\<close> on a string, and \<^verbatim>\<open>localeCompare\<close>.
\<close>

record jslib =
  numToString :: "rat \<Rightarrow> string"
  stringToNumber :: "string \<Rightarrow> rat option"
  parseFloatStr :: "string \<Rightarrow> rat option"
  localeCompare :: "string \<Rightarrow> string \<Rightarrow> int"

definition digitChar :: "nat \<Rightarrow> char" where
  "digitChar n = ''0123456789abcdef'' ! n"

text \<open>A natural number in decimal, as a template literal prints a status code.\<close>

function decimal :: "nat \<Rightarrow> string" where
  "decimal n = (if n < 10 then [digitChar n] else decimal (n div 10) @ [digitChar (n mod 10)])"
  by pat_completeness auto
termination
  by (relation "measure id") auto

fun joinWith :: "string \<Rightarrow> string list \<Rightarrow> string" where
  "joinWith sep [] = []"
| "joinWith sep [x] = x"
| "joinWith sep (x # y # ys) = x @ sep @ joinWith sep (y # ys)"

text \<open>\<^verbatim>\<open>String(v)\<close>.\<close>

fun toStr :: "jslib \<Rightarrow> jsval \<Rightarrow> string"
  and toStrElems :: "jslib \<Rightarrow> jsval list \<Rightarrow> string list" where
  "toStr L JUndefined = ''undefined''"
| "toStr L JNull = ''null''"
| "toStr L (JBool b) = (if b then ''true'' else ''false'')"
| "toStr L (JNum n) = numToString L n"
| "toStr L JNaN = ''NaN''"
| "toStr L (JStr s) = s"
| "toStr L (JArr xs) = joinWith '','' (toStrElems L xs)"
| "toStr L (JObj kvs) = ''[object Object]''"
| "toStrElems L [] = []"
| "toStrElems L (x # xs) = (if nullish x then [] else toStr L x) # toStrElems L xs"

text \<open>The number a value converts to in arithmetic; \<open>None\<close> is NaN.\<close>

fun toNumber :: "jslib \<Rightarrow> jsval \<Rightarrow> rat option" where
  "toNumber L JUndefined = None"
| "toNumber L JNull = Some 0"
| "toNumber L (JBool b) = Some (if b then 1 else 0)"
| "toNumber L (JNum n) = Some n"
| "toNumber L JNaN = None"
| "toNumber L (JStr s) = stringToNumber L s"
| "toNumber L v = stringToNumber L (toStr L v)"

definition numVal :: "rat option \<Rightarrow> jsval" where
  "numVal r = (case r of None \<Rightarrow> JNaN | Some n \<Rightarrow> JNum n)"

text \<open>\<^verbatim>\<open>v / d\<close> and \<^verbatim>\<open>v * k\<close> for a non-zero constant, \<^verbatim>\<open>a + b\<close> on two numbers.\<close>

definition jsDiv :: "jslib \<Rightarrow> jsval \<Rightarrow> rat \<Rightarrow> jsval" where
  "jsDiv L v d = numVal (map_option (\<lambda>n. n / d) (toNumber L v))"

definition jsMul :: "jslib \<Rightarrow> jsval \<Rightarrow> rat \<Rightarrow> jsval" where
  "jsMul L v k = numVal (map_option (\<lambda>n. n * k) (toNumber L v))"

fun numAdd :: "jsval \<Rightarrow> jsval \<Rightarrow> jsval" where
  "numAdd (JNum a) (JNum b) = JNum (a + b)"
| "numAdd a b = JNaN"

text \<open>\<^verbatim>\<open>parseFloat(v)\<close>: the value is turned into a string first.\<close>

definition parseFloat :: "jslib \<Rightarrow> jsval \<Rightarrow> jsval" where
  "parseFloat L v = numVal (parseFloatStr L (toStr L v))"

subsection \<open>\<^verbatim>\<open>JSON.stringify\<close>\<close>

definition escapeChar :: "char \<Rightarrow> string" where
  "escapeChar c =
     (if c = CHR 0x22 then [CHR 0x5C, CHR 0x22]
      else if c = CHR 0x5C then [CHR 0x5C, CHR 0x5C]
      else if c = CHR 0x08 then [CHR 0x5C, CHR ''b'']
      else if c = CHR 0x0C then [CHR 0x5C, CHR ''f'']
      else if c = CHR 0x0A then [CHR 0x5C, CHR ''n'']
      else if c = CHR 0x0D then [CHR 0x5C, CHR ''r'']
      else if c = CHR 0x09 then [CHR 0x5C, CHR ''t'']
      else if (of_char c :: nat) < 32
        then [CHR 0x5C, CHR ''u'', CHR ''0'', CHR ''0'',
              digitChar (of_char c div 16), digitChar (of_char c mod 16)]
      else [c])"

definition quote :: "string \<Rightarrow> string" where
  "quote s = [CHR 0x22] @ concat (map escapeChar s) @ [CHR 0x22]"

text \<open>
  A property whose value is \<^verbatim>\<open>undefined\<close> is left out; in an array \<^verbatim>\<open>undefined\<close> and
  NaN are written \<^verbatim>\<open>null\<close>. (The code only ever stringifies arrays.)
\<close>

fun stringify :: "jslib \<Rightarrow> jsval \<Rightarrow> string"
  and stringifyElems :: "jslib \<Rightarrow> jsval list \<Rightarrow> string list"
  and stringifyProps :: "jslib \<Rightarrow> (string \<times> jsval) list \<Rightarrow> string list" where
  "stringify L JUndefined = ''null''"
| "stringify L JNull = ''null''"
| "stringify L (JBool b) = (if b then ''true'' else ''false'')"
| "stringify L (JNum n) = numToString L n"
| "stringify L JNaN = ''null''"
| "stringify L (JStr s) = quote s"
| "stringify L (JArr xs) = ''['' @ joinWith '','' (stringifyElems L xs) @ '']''"
| "stringify L (JObj kvs) = ''{'' @ joinWith '','' (stringifyProps L kvs) @ ''}''"
| "stringifyElems L [] = []"
| "stringifyElems L (x # xs) = stringify L x # stringifyElems L xs"
| "stringifyProps L [] = []"
| "stringifyProps L ((k, v) # kvs) =
     (if v = JUndefined then stringifyProps L kvs
      else (quote k @ '':'' @ stringify L v) # stringifyProps L kvs)"

text \<open>
  The value \<^verbatim>\<open>JSON.parse(JSON.stringify(v))\<close> gives. A column that holds JSON text is
  modelled by the value the text stands for, so this is what such a column keeps of a
  value written to it.
\<close>

fun jsonClone :: "jsval \<Rightarrow> jsval"
  and jsonCloneElems :: "jsval list \<Rightarrow> jsval list"
  and jsonCloneProps :: "(string \<times> jsval) list \<Rightarrow> (string \<times> jsval) list" where
  "jsonClone JUndefined = JNull"
| "jsonClone JNaN = JNull"
| "jsonClone (JArr xs) = JArr (jsonCloneElems xs)"
| "jsonClone (JObj kvs) = JObj (jsonCloneProps kvs)"
| "jsonClone v = v"
| "jsonCloneElems [] = []"
| "jsonCloneElems (x # xs) = jsonClone x # jsonCloneElems xs"
| "jsonCloneProps [] = []"
| "jsonCloneProps ((k, v) # kvs) =
     (if v = JUndefined then jsonCloneProps kvs else (k, jsonClone v) # jsonCloneProps kvs)"

subsection \<open>SHA-256\<close>

text \<open>
  \<^verbatim>\<open>crypto.createHash('sha256').update(text).digest('hex')\<close>, following FIPS 180-4:
  the text's UTF-8 bytes are padded, cut into blocks of sixteen 32-bit words, and
  compressed block by block; the digest is printed as 64 lower-case hex digits. A
  32-bit word is an integer from 0 to \<open>2^32 - 1\<close>, with the wrap-around of an addition
  and the loss of the high bits in a left shift written out as \<open>mod 2^32\<close>.
\<close>

type_synonym u32 = int

type_synonym sha_state = "u32 \<times> u32 \<times> u32 \<times> u32 \<times> u32 \<times> u32 \<times> u32 \<times> u32"

definition wrap32 :: "int \<Rightarrow> u32" where
  "wrap32 x = x mod 4294967296"

text \<open>Rotation to the right by \<open>n\<close> bits, given \<open>2^n\<close> and \<open>2^(32 - n)\<close>.\<close>

definition rotr :: "int \<Rightarrow> int \<Rightarrow> u32 \<Rightarrow> u32" where
  "rotr lo hi x = x div lo OR wrap32 (x * hi)"

definition Ch :: "u32 \<Rightarrow> u32 \<Rightarrow> u32 \<Rightarrow> u32" where
  "Ch x y z = (x AND y) XOR ((4294967295 - x) AND z)"

definition Maj :: "u32 \<Rightarrow> u32 \<Rightarrow> u32 \<Rightarrow> u32" where
  "Maj x y z = (x AND y) XOR (x AND z) XOR (y AND z)"

definition Sigma0 :: "u32 \<Rightarrow> u32" where
  "Sigma0 x = rotr 4 1073741824 x XOR rotr 8192 524288 x XOR rotr 4194304 1024 x"

definition Sigma1 :: "u32 \<Rightarrow> u32" where
  "Sigma1 x = rotr 64 67108864 x XOR rotr 2048 2097152 x XOR rotr 33554432 128 x"

definition sigma0 :: "u32 \<Rightarrow> u32" where
  "sigma0 x = rotr 128 33554432 x XOR rotr 262144 16384 x XOR x div 8"

definition sigma1 :: "u32 \<Rightarrow> u32" where
  "sigma1 x = rotr 131072 32768 x XOR rotr 524288 8192 x XOR x div 1024"

text \<open>
  The round constants (the first 32 bits of the fractional parts of the cube roots of
  the first 64 primes) and the initial state (the same of the square roots of the first
  8 primes), in decimal.
\<close>

definition K256 :: "u32 list" where
  "K256 = [1116352408, 1899447441, 3049323471, 3921009573, 961987163, 1508970993, 2453635748, 2870763221,
           3624381080, 310598401, 607225278, 1426881987, 1925078388, 2162078206, 2614888103, 3248222580,
           3835390401, 4022224774, 264347078, 604807628, 770255983, 1249150122, 1555081692, 1996064986,
           2554220882, 2821834349, 2952996808, 3210313671, 3336571891, 3584528711, 113926993, 338241895,
           666307205, 773529912, 1294757372, 1396182291, 1695183700, 1986661051, 2177026350, 2456956037,
           2730485921, 2820302411, 3259730800, 3345764771, 3516065817, 3600352804, 4094571909, 275423344,
           430227734, 506948616, 659060556, 883997877, 958139571, 1322822218, 1537002063, 1747873779,
           1955562222, 2024104815, 2227730452, 2361852424, 2428436474, 2756734187, 3204031479, 3329325298]"

definition H256 :: sha_state where
  "H256 = (1779033703, 3144134277, 1013904242, 2773480762,
           1359893119, 2600822924, 528734635, 1541459225)"

text \<open>The message schedule, newest word first: \<open>n\<close> more words from the last sixteen.\<close>

fun schedule :: "nat \<Rightarrow> u32 list \<Rightarrow> u32 list" where
  "schedule 0 ws = ws"
| "schedule (Suc n) ws =
     schedule n (wrap32 (sigma1 (ws ! 1) + ws ! 6 + sigma0 (ws ! 14) + ws ! 15) # ws)"

fun rounds :: "u32 list \<Rightarrow> u32 list \<Rightarrow> sha_state \<Rightarrow> sha_state" where
  "rounds (k # ks) (w # ws) (a, b, c, d, e, f, g, h) =
     (let t1 = h + Sigma1 e + Ch e f g + k + w;
          t2 = Sigma0 a + Maj a b c
      in rounds ks ws (wrap32 (t1 + t2), a, b, c, wrap32 (d + t1), e, f, g))"
| "rounds ks ws s = s"

definition compress :: "sha_state \<Rightarrow> u32 list \<Rightarrow> sha_state" where
  "compress s blk =
     (case s of (a, b, c, d, e, f, g, h) \<Rightarrow>
        (case rounds K256 (rev (schedule 48 (rev blk))) s of
           (a', b', c', d', e', f', g', h') \<Rightarrow>
             (wrap32 (a + a'), wrap32 (b + b'), wrap32 (c + c'), wrap32 (d + d'),
              wrap32 (e + e'), wrap32 (f + f'), wrap32 (g + g'), wrap32 (h + h'))))"

text \<open>Bytes (integers from 0 to 255) to big-endian words.\<close>

fun be32 :: "int list \<Rightarrow> u32 list" where
  "be32 (a # b # c # d # rest) = (a * 16777216 + b * 65536 + c * 256 + d) # be32 rest"
| "be32 bs = []"

definition pad :: "int list \<Rightarrow> int list" where
  "pad m =
     (let l = length m;
          bits = 8 * int l
      in m @ [128] @ replicate ((119 - l mod 64) mod 64) 0
           @ map (\<lambda>i. bits div 256 ^ (7 - i) mod 256) [0..<8])"

fun blocks :: "nat \<Rightarrow> u32 list \<Rightarrow> sha_state \<Rightarrow> sha_state" where
  "blocks 0 ws s = s"
| "blocks (Suc n) ws s = blocks n (drop 16 ws) (compress s (take 16 ws))"

definition sha256 :: "int list \<Rightarrow> sha_state" where
  "sha256 m = (let ws = be32 (pad m) in blocks (length ws div 16) ws H256)"

definition hex32 :: "u32 \<Rightarrow> string" where
  "hex32 w = map (\<lambda>i. digitChar (nat (w div 16 ^ (7 - i) mod 16))) [0..<8]"

definition sha256hex :: "string \<Rightarrow> string" where
  "sha256hex text =
     (case sha256 (map of_char text) of (a, b, c, d, e, f, g, h) \<Rightarrow>
        hex32 a @ hex32 b @ hex32 c @ hex32 d @ hex32 e @ hex32 f @ hex32 g @ hex32 h)"

section \<open>The outside world\<close>

text \<open>
  An outbound request either is rejected (connection failure, or the abort after the
  timeout) with an error message, or is answered. An answer carries the status, the
  body text, and what \<^verbatim>\<open>JSON.parse\<close> makes of the body: a value, or a syntax error
  with its message.
\<close>

record response =
  status :: nat
  rawText :: string
  parsed :: "string + jsval"

datatype fetched = Rejected string | Responded response

definition ok :: "response \<Rightarrow> bool" where
  "ok res = (200 \<le> status res \<and> status res \<le> 299)"

text \<open>
  What the outside supplies during one check of one site: the clock (milliseconds) when
  the check records its results, the clock each time an entry of the model list is
  made (\<open>entryClock W i\<close> is \<^verbatim>\<open>Date.now()\<close> in the callback for the entry at
  position \<open>i\<close>), the measured latency of the model request, and the outcome of each
  request the check may make.
\<close>

record world =
  nowMs :: nat
  entryClock :: "nat \<Rightarrow> nat"
  elapsedMs :: nat
  modelsResp :: fetched
  userInfoResp :: fetched
  subscriptionResp :: fetched
  usageResp :: fetched
  customBillingResp :: fetched
  checkInResp :: fetched

section \<open>run.js: model lists\<close>

text \<open>
  A \<^verbatim>\<open>map\<close> whose callback may throw stops at the first throw. Where the callback
  reads the clock, it is mapped over the entries with their positions.
\<close>

fun mapE :: "('a \<Rightarrow> exn + 'b) \<Rightarrow> 'a list \<Rightarrow> exn + 'b list" where
  "mapE f [] = Inr []"
| "mapE f (x # xs) =
     (case f x of
        Inl e \<Rightarrow> Inl e
      | Inr y \<Rightarrow> (case mapE f xs of Inl e \<Rightarrow> Inl e | Inr ys \<Rightarrow> Inr (y # ys)))"

definition created :: "nat \<Rightarrow> jsval" where
  "created now = JNum (of_nat now / 1000)"

definition hasKey :: "jsval \<Rightarrow> string \<Rightarrow> bool" where
  "hasKey m k = (case m of JObj kvs \<Rightarrow> map_of kvs k \<noteq> None | _ \<Rightarrow> False)"

text \<open>
  The callback of \<^verbatim>\<open>arr.map\<close> in \<open>normalizeModels\<close>. Reading \<^verbatim>\<open>m.id\<close> throws on
  \<^verbatim>\<open>null\<close> and \<^verbatim>\<open>undefined\<close>; \<^verbatim>\<open>'type' in m\<close> throws on a number or a boolean.
\<close>

fun normalizeEntry :: "nat \<Rightarrow> jsval \<Rightarrow> exn + jsval" where
  "normalizeEntry now (JStr s) =
     Inr (JObj [(''id'', JStr s), (''object'', JStr ''model''), (''owned_by'', JStr ''unknown''),
                (''created'', created now)])"
| "normalizeEntry now JUndefined = Inl (Exn ''Cannot read properties of undefined (reading id)'')"
| "normalizeEntry now JNull = Inl (Exn ''Cannot read properties of null (reading id)'')"
| "normalizeEntry now (JNum n) = Inl (Exn ''Cannot use in operator to search for type'')"
| "normalizeEntry now JNaN = Inl (Exn ''Cannot use in operator to search for type'')"
| "normalizeEntry now (JBool b) = Inl (Exn ''Cannot use in operator to search for type'')"
| "normalizeEntry now m =
     Inr (JObj ([(''id'', jsor (jsget m ''id'') (jsor (jsget m ''model'') m)),
                 (''object'', jsor (jsget m ''object'') (JStr ''model'')),
                 (''owned_by'', jsor (jsget m ''owned_by'')
                                 (jsor (jsget m ''ownedBy'') (JStr ''unknown''))),
                 (''permission'', jsget m ''permission''),
                 (''created'', jsor (jsget m ''created'') (created now)),
                 (''root'', jsget m ''root''),
                 (''parent'', jsget m ''parent'')]
                @ (if hasKey m ''type'' then [(''type'', jsget m ''type'')] else [])))"

text \<open>
  \<^verbatim>\<open>list.sort(cmp)\<close> is stable: for a comparator that orders consistently it is
  insertion from the right, an element going before the first one it does not come
  after.
\<close>

definition sortKey :: "jslib \<Rightarrow> jsval \<Rightarrow> string" where
  "sortKey L a = toStr L (jsor (jsget a ''id'') (JStr []))"

definition cmpModels :: "jslib \<Rightarrow> jsval \<Rightarrow> jsval \<Rightarrow> int" where
  "cmpModels L a b = localeCompare L (sortKey L a) (sortKey L b)"

fun insertSorted :: "('a \<Rightarrow> 'a \<Rightarrow> int) \<Rightarrow> 'a \<Rightarrow> 'a list \<Rightarrow> 'a list" where
  "insertSorted cmp x [] = [x]"
| "insertSorted cmp x (y # ys) =
     (if cmp x y \<le> 0 then x # y # ys else y # insertSorted cmp x ys)"

definition sortStable :: "('a \<Rightarrow> 'a \<Rightarrow> int) \<Rightarrow> 'a list \<Rightarrow> 'a list" where
  "sortStable cmp xs = foldr (insertSorted cmp) xs []"

text \<open>
  \<^verbatim>\<open>Array.isArray(response.data) ? response.data : Array.isArray(response) ? response : []\<close>
\<close>

definition responseArray :: "jsval \<Rightarrow> jsval list" where
  "responseArray resp =
     (case jsget resp ''data'' of
        JArr xs \<Rightarrow> xs
      | _ \<Rightarrow> (case resp of JArr ys \<Rightarrow> ys | _ \<Rightarrow> []))"

definition normalizeModels :: "jslib \<Rightarrow> (nat \<Rightarrow> nat) \<Rightarrow> jsval \<Rightarrow> exn + jsval list" where
  "normalizeModels L clock resp =
     (if \<not> truthy resp then Inr []
      else case mapE (\<lambda>(i, m). normalizeEntry (clock i) m) (enumerate 0 (responseArray resp)) of
             Inl e \<Rightarrow> Inl e
           | Inr list \<Rightarrow> Inr (sortStable (cmpModels L) list))"

definition hashModels :: "jslib \<Rightarrow> jsval list \<Rightarrow> string" where
  "hashModels L models = sha256hex (stringify L (JArr models))"

subsection \<open>Fetching the model list\<close>

text \<open>
  What a fetch function returns, and the object it throws: the error, a null raw
  response and status, the latency, and the error's message.
\<close>

record fetchResult =
  models :: "jsval list"
  rawResponse :: string
  statusCode :: nat
  responseTime :: nat

record fetchFailure =
  error :: exn
  failedRawResponse :: "string option"
  failedStatusCode :: "nat option"
  failedResponseTime :: nat
  failedMessage :: string

definition failWith :: "world \<Rightarrow> exn \<Rightarrow> fetchFailure" where
  "failWith W e = \<lparr> error = e, failedRawResponse = None, failedStatusCode = None,
                    failedResponseTime = elapsedMs W, failedMessage = message e \<rparr>"

definition httpError :: "nat \<Rightarrow> string \<Rightarrow> exn" where
  "httpError st body = Exn (''HTTP '' @ decimal st @ '': '' @ body)"

text \<open>\<open>fetchModels\<close>: the OpenAI-compatible listing; the body is parsed before the status is looked at.\<close>

definition fetchModels :: "jslib \<Rightarrow> world \<Rightarrow> fetchFailure + fetchResult" where
  "fetchModels L W =
     (case modelsResp W of
        Rejected msg \<Rightarrow> Inl (failWith W (Exn msg))
      | Responded res \<Rightarrow>
          (case parsed res of
             Inl syntaxError \<Rightarrow>
               Inl (failWith W (Exn (''Invalid JSON response: '' @ take 200 (rawText res))))
           | Inr json \<Rightarrow>
               if \<not> ok res then Inl (failWith W (httpError (status res) (take 200 (rawText res))))
               else (case normalizeModels L (entryClock W) json of
                       Inl e \<Rightarrow> Inl (failWith W e)
                     | Inr ms \<Rightarrow>
                         Inr \<lparr> models = ms, rawResponse = rawText res,
                               statusCode = status res, responseTime = elapsedMs W \<rparr>)))"

definition providerName :: "string \<Rightarrow> string" where
  "providerName ty = (if ty = ''newapi'' then ''new-api'' else ''veloera'')"

text \<open>The callback of \<^verbatim>\<open>json.data.map\<close> in \<open>fetchModelsNewapi\<close>.\<close>

fun newapiEntry :: "string \<Rightarrow> nat \<Rightarrow> jsval \<Rightarrow> exn + jsval" where
  "newapiEntry ty now (JStr s) =
     Inr (JObj [(''id'', JStr s), (''object'', JStr ''model''),
                (''owned_by'', JStr (providerName ty)), (''created'', created now)])"
| "newapiEntry ty now JUndefined =
     Inl (Exn ''Cannot read properties of undefined (reading id)'')"
| "newapiEntry ty now JNull = Inl (Exn ''Cannot read properties of null (reading id)'')"
| "newapiEntry ty now m =
     Inr (JObj [(''id'', jsor (jsget m ''id'') (jsor (jsget m ''model'') m)),
                (''object'', JStr ''model''),
                (''owned_by'', jsor (jsget m ''owned_by'') (JStr (providerName ty))),
                (''created'', created now)])"

text \<open>\<open>fetchModelsNewapi\<close>: the list is kept in the order the upstream sent it.\<close>

definition fetchModelsNewapi :: "world \<Rightarrow> string \<Rightarrow> fetchFailure + fetchResult" where
  "fetchModelsNewapi W ty =
     (case modelsResp W of
        Rejected msg \<Rightarrow> Inl (failWith W (Exn msg))
      | Responded res \<Rightarrow>
          if \<not> ok res then Inl (failWith W (httpError (status res) (rawText res)))
          else (case parsed res of
                  Inl syntaxError \<Rightarrow> Inl (failWith W (Exn syntaxError))
                | Inr json \<Rightarrow>
                    if nullish json
                    then Inl (failWith W (Exn ''Cannot read properties of null (reading success)''))
                    else (case jsget json ''data'' of
                            JArr xs \<Rightarrow>
                              if \<not> truthy (jsget json ''success'')
                              then Inl (failWith W (Exn ''Invalid response format''))
                              else (case mapE (\<lambda>(i, m). newapiEntry ty (entryClock W i) m)
                                           (enumerate 0 xs) of
                                      Inl e \<Rightarrow> Inl (failWith W e)
                                    | Inr ms \<Rightarrow>
                                        Inr \<lparr> models = ms, rawResponse = rawText res,
                                              statusCode = status res,
                                              responseTime = elapsedMs W \<rparr>)
                          | _ \<Rightarrow> Inl (failWith W (Exn ''Invalid response format'')))))"

text \<open>
  The own enumerable properties of a value, in enumeration order: the pairs of an
  object, the elements of an array and the characters of a string under their indices.
\<close>

definition ownEntries :: "jsval \<Rightarrow> (string \<times> jsval) list" where
  "ownEntries v =
     (case v of
        JObj kvs \<Rightarrow> kvs
      | JArr xs \<Rightarrow> zip (map decimal [0..<length xs]) xs
      | JStr s \<Rightarrow> zip (map decimal [0..<length s]) (map (\<lambda>c. JStr [c]) s)
      | _ \<Rightarrow> [])"

definition donehubEntry :: "nat \<Rightarrow> string \<times> jsval \<Rightarrow> exn + jsval" where
  "donehubEntry now kv =
     (if nullish (snd kv) then Inl (Exn ''Cannot read properties of null (reading owned_by)'')
      else Inr (JObj [(''id'', JStr (fst kv)), (''object'', JStr ''model''),
                      (''owned_by'', jsor (jsget (snd kv) ''owned_by'') (JStr ''unknown'')),
                      (''created'', created now)]))"

text \<open>\<open>fetchModelsDonehub\<close>: one model per key of \<^verbatim>\<open>json.data\<close>, in the order of the keys.\<close>

definition fetchModelsDonehub :: "world \<Rightarrow> fetchFailure + fetchResult" where
  "fetchModelsDonehub W =
     (case modelsResp W of
        Rejected msg \<Rightarrow> Inl (failWith W (Exn msg))
      | Responded res \<Rightarrow>
          if \<not> ok res then Inl (failWith W (httpError (status res) (rawText res)))
          else (case parsed res of
                  Inl syntaxError \<Rightarrow> Inl (failWith W (Exn syntaxError))
                | Inr json \<Rightarrow>
                    if nullish json
                    then Inl (failWith W (Exn ''Cannot read properties of null (reading data)''))
                    else if \<not> truthy (jsget json ''data'')
                    then Inl (failWith W (Exn ''Invalid response format''))
                    else (case mapE (\<lambda>(i, kv). donehubEntry (entryClock W i) kv)
                                 (enumerate 0 (ownEntries (jsget json ''data''))) of
                            Inl e \<Rightarrow> Inl (failWith W e)
                          | Inr ms \<Rightarrow>
                              Inr \<lparr> models = ms, rawResponse = rawText res,
                                    statusCode = status res, responseTime = elapsedMs W \<rparr>)))"

section \<open>The process\<close>

text \<open>
  What is fixed while the server runs: the cipher and the key of the secrets codec, the
  runtime's functions, and the mail provider's key in the environment (the mail client
  falls back to it when it is constructed without a key).
\<close>

record runtime =
  gcm :: aes_gcm
  moduleKey :: "byte list"
  lib :: jslib
  resendEnvKey :: "string option"

definition decryptR :: "runtime \<Rightarrow> string option \<Rightarrow> exn + string" where
  "decryptR R payload = decrypt (gcm R) (moduleKey R) payload"

section \<open>checkin.js: the check-in request\<close>

text \<open>
  The messages of \<open>performCheckIn\<close> are Chinese text; each is given here as its
  UTF-8 bytes, with its meaning.
\<close>

text \<open>Meaning: site type not supported.\<close>

definition msgUnsupportedType :: string where
  "msgUnsupportedType =
     [CHR 0xE4, CHR 0xB8, CHR 0x8D, CHR 0xE6, CHR 0x94, CHR 0xAF, CHR 0xE6, CHR 0x8C,
      CHR 0x81, CHR 0xE7, CHR 0x9A, CHR 0x84, CHR 0xE7, CHR 0xAB, CHR 0x99,
      CHR 0xE7, CHR 0x82, CHR 0xB9, CHR 0xE7, CHR 0xB1, CHR 0xBB, CHR 0xE5,
      CHR 0x9E, CHR 0x8B]"

text \<open>Meaning: only the Veloera type supports check-in.\<close>

definition errOnlyVeloera :: string where
  "errOnlyVeloera =
     [CHR 0xE4, CHR 0xBB, CHR 0x85, CHR 0x56, CHR 0x65, CHR 0x6C, CHR 0x6F, CHR 0x65,
      CHR 0x72, CHR 0x61, CHR 0xE7, CHR 0xB1, CHR 0xBB, CHR 0xE5, CHR 0x9E,
      CHR 0x8B, CHR 0xE6, CHR 0x94, CHR 0xAF, CHR 0xE6, CHR 0x8C, CHR 0x81,
      CHR 0xE7, CHR 0xAD, CHR 0xBE, CHR 0xE5, CHR 0x88, CHR 0xB0]"

text \<open>Meaning: check-in not enabled.\<close>

definition msgNotEnabled :: string where
  "msgNotEnabled =
     [CHR 0xE6, CHR 0x9C, CHR 0xAA, CHR 0xE5, CHR 0x90, CHR 0xAF, CHR 0xE7, CHR 0x94,
      CHR 0xA8, CHR 0xE7, CHR 0xAD, CHR 0xBE, CHR 0xE5, CHR 0x88, CHR 0xB0]"

text \<open>Meaning: user id missing.\<close>

definition msgNoUserId :: string where
  "msgNoUserId =
     [CHR 0xE7, CHR 0xBC, CHR 0xBA, CHR 0xE5, CHR 0xB0, CHR 0x91, CHR 0xE7, CHR 0x94,
      CHR 0xA8, CHR 0xE6, CHR 0x88, CHR 0xB7, CHR 0x49, CHR 0x44]"

text \<open>Meaning: check-in needs a configured user id.\<close>

definition errNeedUserId :: string where
  "errNeedUserId =
     [CHR 0xE7, CHR 0xAD, CHR 0xBE, CHR 0xE5, CHR 0x88, CHR 0xB0, CHR 0xE9, CHR 0x9C,
      CHR 0x80, CHR 0xE8, CHR 0xA6, CHR 0x81, CHR 0xE9, CHR 0x85, CHR 0x8D,
      CHR 0xE7, CHR 0xBD, CHR 0xAE, CHR 0xE7, CHR 0x94, CHR 0xA8, CHR 0xE6,
      CHR 0x88, CHR 0xB7, CHR 0x49, CHR 0x44]"

text \<open>Meaning: check-in response could not be parsed.\<close>

definition msgParseFailed :: string where
  "msgParseFailed =
     [CHR 0xE7, CHR 0xAD, CHR 0xBE, CHR 0xE5, CHR 0x88, CHR 0xB0, CHR 0xE5, CHR 0x93,
      CHR 0x8D, CHR 0xE5, CHR 0xBA, CHR 0x94, CHR 0xE8, CHR 0xA7, CHR 0xA3,
      CHR 0xE6, CHR 0x9E, CHR 0x90, CHR 0xE5, CHR 0xA4, CHR 0xB1, CHR 0xE8,
      CHR 0xB4, CHR 0xA5]"

text \<open>Meaning: invalid response format: .\<close>

definition errInvalidFormat :: string where
  "errInvalidFormat =
     [CHR 0xE6, CHR 0x97, CHR 0xA0, CHR 0xE6, CHR 0x95, CHR 0x88, CHR 0xE7, CHR 0x9A,
      CHR 0x84, CHR 0xE5, CHR 0x93, CHR 0x8D, CHR 0xE5, CHR 0xBA, CHR 0x94,
      CHR 0xE6, CHR 0xA0, CHR 0xBC, CHR 0xE5, CHR 0xBC, CHR 0x8F, CHR 0x3A,
      CHR 0x20]"

text \<open>Meaning: check-in succeeded.\<close>

definition msgCheckInOk :: string where
  "msgCheckInOk =
     [CHR 0xE7, CHR 0xAD, CHR 0xBE, CHR 0xE5, CHR 0x88, CHR 0xB0, CHR 0xE6, CHR 0x88,
      CHR 0x90, CHR 0xE5, CHR 0x8A, CHR 0x9F]"

text \<open>Meaning: check-in failed.\<close>

definition msgCheckInFailed :: string where
  "msgCheckInFailed =
     [CHR 0xE7, CHR 0xAD, CHR 0xBE, CHR 0xE5, CHR 0x88, CHR 0xB0, CHR 0xE5, CHR 0xA4,
      CHR 0xB1, CHR 0xE8, CHR 0xB4, CHR 0xA5]"

text \<open>Meaning: check-in exception.\<close>

definition msgCheckInException :: string where
  "msgCheckInException =
     [CHR 0xE7, CHR 0xAD, CHR 0xBE, CHR 0xE5, CHR 0x88, CHR 0xB0, CHR 0xE5, CHR 0xBC,
      CHR 0x82, CHR 0xE5, CHR 0xB8, CHR 0xB8]"

text \<open>Meaning: network request failed.\<close>

definition errNetworkFailed :: string where
  "errNetworkFailed =
     [CHR 0xE7, CHR 0xBD, CHR 0x91, CHR 0xE7, CHR 0xBB, CHR 0x9C, CHR 0xE8, CHR 0xAF,
      CHR 0xB7, CHR 0xE6, CHR 0xB1, CHR 0x82, CHR 0xE5, CHR 0xA4, CHR 0xB1,
      CHR 0xE8, CHR 0xB4, CHR 0xA5]"

record checkInOutcome =
  ci_success :: bool
  ci_message :: jsval
  ci_quota :: jsval
  ci_error :: jsval

text \<open>The \<^verbatim>\<open>catch\<close> at the end of \<open>performCheckIn\<close>.\<close>

definition checkInCaught :: "exn \<Rightarrow> checkInOutcome" where
  "checkInCaught e =
     \<lparr> ci_success = False, ci_message = JStr msgCheckInException, ci_quota = JNull,
       ci_error = JStr (if message e = [] then errNetworkFailed else message e) \<rparr>"

text \<open>
  \<open>performCheckIn\<close>. The three tests on the site come before the \<^verbatim>\<open>try\<close>; inside it
  are the decryption of the key, the request, and the reading of the answer (whose
  status is not looked at).
\<close>

definition performCheckIn :: "runtime \<Rightarrow> world \<Rightarrow> site \<Rightarrow> checkInOutcome" where
  "performCheckIn R W s =
     (if apiType s \<noteq> Some ''veloera''
      then \<lparr> ci_success = False, ci_message = JStr msgUnsupportedType, ci_quota = JNull,
             ci_error = JStr errOnlyVeloera \<rparr>
      else if \<not> enableCheckIn s
      then \<lparr> ci_success = False, ci_message = JStr msgNotEnabled, ci_quota = JNull,
             ci_error = JNull \<rparr>
      else if \<not> truthyStr (userId s)
      then \<lparr> ci_success = False, ci_message = JStr msgNoUserId, ci_quota = JNull,
             ci_error = JStr errNeedUserId \<rparr>
      else case decryptR R (apiKeyEnc s) of
        Inl e \<Rightarrow> checkInCaught e
      | Inr token \<Rightarrow>
          (case checkInResp W of
             Rejected msg \<Rightarrow> checkInCaught (Exn msg)
           | Responded res \<Rightarrow>
               (case parsed res of
                  Inl syntaxError \<Rightarrow>
                    \<lparr> ci_success = False, ci_message = JStr msgParseFailed, ci_quota = JNull,
                      ci_error = JStr (errInvalidFormat @ take 100 (rawText res)) \<rparr>
                | Inr result \<Rightarrow>
                    if nullish result
                    then checkInCaught (Exn ''Cannot read properties of null (reading success)'')
                    else if truthy (jsget result ''success'')
                    then \<lparr> ci_success = True,
                           ci_message = jsor (jsget result ''message'') (JStr msgCheckInOk),
                           ci_quota = jsor (if nullish (jsget result ''data'') then JUndefined
                                            else jsget (jsget result ''data'') ''quota'') JNull,
                           ci_error = JNull \<rparr>
                    else
                      let errorMsg = jsor (jsget result ''message'')
                                       (jsor (jsget result ''error'') (JStr msgCheckInFailed))
                      in \<lparr> ci_success = False, ci_message = errorMsg, ci_quota = JNull,
                           ci_error = errorMsg \<rparr>)))"

section \<open>run.js: billing\<close>

record userInfo =
  quota :: jsval
  usedQuota :: jsval
  userStatus :: jsval

text \<open>
  \<open>fetchUserInfoNewapi\<close>. The conversion ratio is chosen by an \<^verbatim>\<open>if\<close> chain whose
  three branches all give 500000.
\<close>

definition fetchUserInfoNewapi :: "jslib \<Rightarrow> world \<Rightarrow> string \<Rightarrow> exn + userInfo" where
  "fetchUserInfoNewapi L W ty =
     (case userInfoResp W of
        Rejected msg \<Rightarrow> Inl (Exn msg)
      | Responded res \<Rightarrow>
          if \<not> ok res then Inl (httpError (status res) (rawText res))
          else (case parsed res of
                  Inl syntaxError \<Rightarrow> Inl (Exn syntaxError)
                | Inr data \<Rightarrow>
                    if nullish data
                    then Inl (Exn ''Cannot read properties of null (reading success)'')
                    else if \<not> truthy (jsget data ''success'') \<or> \<not> truthy (jsget data ''data'')
                    then Inl (Exn ''Invalid user info response'')
                    else
                      let userData = jsget data ''data'';
                          conversionRatio = (if ty = ''newapi'' then 500000
                                             else if ty = ''veloera'' then 500000
                                             else 500000);
                          quotaInDollars =
                            jsDiv L (jsor (jsget userData ''quota'') (JNum 0)) conversionRatio;
                          usedQuotaInDollars =
                            jsDiv L (jsor (jsget userData ''used_quota'') (JNum 0)) conversionRatio;
                          totalQuotaInDollars = numAdd quotaInDollars usedQuotaInDollars
                      in Inr \<lparr> quota = totalQuotaInDollars, usedQuota = usedQuotaInDollars,
                               userStatus = jsget userData ''status'' \<rparr>))"

definition fetchUserInfoDonehub :: "jslib \<Rightarrow> world \<Rightarrow> exn + userInfo" where
  "fetchUserInfoDonehub L W =
     (case userInfoResp W of
        Rejected msg \<Rightarrow> Inl (Exn msg)
      | Responded res \<Rightarrow>
          if \<not> ok res then Inl (httpError (status res) (rawText res))
          else (case parsed res of
                  Inl syntaxError \<Rightarrow> Inl (Exn syntaxError)
                | Inr data \<Rightarrow>
                    if nullish data
                    then Inl (Exn ''Cannot read properties of null (reading success)'')
                    else if \<not> truthy (jsget data ''success'') \<or> \<not> truthy (jsget data ''data'')
                    then Inl (Exn ''Invalid user info response'')
                    else
                      let userData = jsget data ''data'';
                          conversionRatio = 500000;
                          quotaInDollars =
                            jsDiv L (jsor (jsget userData ''quota'') (JNum 0)) conversionRatio;
                          usedQuotaInDollars =
                            jsDiv L (jsor (jsget userData ''used_quota'') (JNum 0)) conversionRatio;
                          totalQuotaInDollars = numAdd quotaInDollars usedQuotaInDollars
                      in Inr \<lparr> quota = totalQuotaInDollars, usedQuota = usedQuotaInDollars,
                               userStatus = jsget userData ''status'' \<rparr>))"

text \<open>\<open>fetchUserInfoVoapi\<close>: the balances are already in currency units.\<close>

definition fetchUserInfoVoapi :: "jslib \<Rightarrow> world \<Rightarrow> exn + userInfo" where
  "fetchUserInfoVoapi L W =
     (case userInfoResp W of
        Rejected msg \<Rightarrow> Inl (Exn msg)
      | Responded res \<Rightarrow>
          if \<not> ok res then Inl (httpError (status res) (rawText res))
          else (case parsed res of
                  Inl syntaxError \<Rightarrow> Inl (Exn syntaxError)
                | Inr data \<Rightarrow>
                    if nullish data
                    then Inl (Exn ''Cannot read properties of null (reading code)'')
                    else if jsget data ''code'' \<noteq> JNum 0 \<or> \<not> truthy (jsget data ''data'')
                    then Inl (Exn ''Invalid user info response'')
                    else
                      let userData = jsget data ''data'';
                          totalBalance =
                            numAdd (parseFloat L (jsor (jsget userData ''bindBalance'') (JNum 0)))
                                   (parseFloat L (jsor (jsget userData ''basicBalance'') (JNum 0)));
                          totalUsed =
                            numAdd (parseFloat L (jsor (jsget userData ''usedBindBalance'') (JNum 0)))
                                   (parseFloat L (jsor (jsget userData ''usedBasicBalance'') (JNum 0)))
                      in Inr \<lparr> quota = totalBalance, usedQuota = totalUsed,
                               userStatus = JStr (if truthy (jsget userData ''ban'')
                                                  then ''banned'' else ''active'') \<rparr>))"

definition fetchBillingSubscription :: "world \<Rightarrow> exn + jsval" where
  "fetchBillingSubscription W =
     (case subscriptionResp W of
        Rejected msg \<Rightarrow> Inl (Exn msg)
      | Responded res \<Rightarrow>
          if \<not> ok res then Inl (httpError (status res) (rawText res))
          else (case parsed res of
                  Inl syntaxError \<Rightarrow> Inl (Exn syntaxError)
                | Inr data \<Rightarrow>
                    if nullish data
                    then Inl (Exn ''Cannot read properties of null (reading system_hard_limit_usd)'')
                    else Inr (jsor (jsget data ''system_hard_limit_usd'') JNull)))"

definition fetchBillingUsage :: "jslib \<Rightarrow> world \<Rightarrow> exn + jsval" where
  "fetchBillingUsage L W =
     (case usageResp W of
        Rejected msg \<Rightarrow> Inl (Exn msg)
      | Responded res \<Rightarrow>
          if \<not> ok res then Inl (httpError (status res) (rawText res))
          else (case parsed res of
                  Inl syntaxError \<Rightarrow> Inl (Exn syntaxError)
                | Inr data \<Rightarrow>
                    if nullish data
                    then Inl (Exn ''Cannot read properties of null (reading total_usage)'')
                    else Inr (if truthy (jsget data ''total_usage'')
                              then jsMul L (jsget data ''total_usage'') (1 / 100) else JNull)))"

subsection \<open>The custom billing address\<close>

text \<open>
  \<^verbatim>\<open>v[key]\<close> for any key: an own property, or the length of an array or a string.
\<close>

definition jsindex :: "jsval \<Rightarrow> string \<Rightarrow> jsval" where
  "jsindex v key =
     (case map_of (ownEntries v) key of
        Some x \<Rightarrow> x
      | None \<Rightarrow>
          if key = ''length''
          then (case v of
                  JArr xs \<Rightarrow> JNum (of_nat (length xs))
                | JStr s \<Rightarrow> JNum (of_nat (length s))
                | _ \<Rightarrow> JUndefined)
          else JUndefined)"

definition getNestedValue :: "jsval \<Rightarrow> string \<Rightarrow> jsval" where
  "getNestedValue obj path =
     foldl (\<lambda>current key.
              if truthy current \<and> jsindex current key \<noteq> JUndefined
              then jsindex current key else JUndefined)
           obj (splitOn CHR ''.'' path)"

record customBilling =
  cb_billingLimit :: jsval
  cb_billingUsage :: jsval
  cb_rawResponse :: string

text \<open>An assignment under \<^verbatim>\<open>if (v !== undefined)\<close>.\<close>

definition setIfDefined :: "jsval \<Rightarrow> jsval \<Rightarrow> jsval \<Rightarrow> jsval" where
  "setIfDefined v new old = (if v \<noteq> JUndefined then new else old)"

text \<open>
  \<open>fetchCustomBilling\<close>. The decryption of the stored token or cookie is inside the
  \<^verbatim>\<open>try\<close>, whose \<^verbatim>\<open>catch\<close> throws the error on.
\<close>

definition fetchCustomBilling :: "runtime \<Rightarrow> world \<Rightarrow> site \<Rightarrow> exn + customBilling" where
  "fetchCustomBilling R W s =
     (if \<not> truthyStr (billingUrl s) then Inl (Exn ''No custom billing URL configured'')
      else case (if truthyStr (billingAuthValue s) then decryptR R (billingAuthValue s)
                 else Inr []) of
        Inl e \<Rightarrow> Inl e
      | Inr authValue \<Rightarrow>
          (case customBillingResp W of
             Rejected msg \<Rightarrow> Inl (Exn msg)
           | Responded res \<Rightarrow>
               if \<not> ok res then Inl (httpError (status res) (rawText res))
               else (case parsed res of
                       Inl syntaxError \<Rightarrow> Inl (Exn syntaxError)
                     | Inr data \<Rightarrow>
                         if truthyStr (billingLimitField s) \<and> truthyStr (billingUsageField s)
                         then
                           let limitValue = getNestedValue data (strOr (billingLimitField s) []);
                               usageValue = getNestedValue data (strOr (billingUsageField s) [])
                           in Inr \<lparr> cb_billingLimit =
                                      setIfDefined limitValue (parseFloat (lib R) limitValue) JNull,
                                    cb_billingUsage =
                                      setIfDefined usageValue (parseFloat (lib R) usageValue) JNull,
                                    cb_rawResponse = rawText res \<rparr>
                         else if nullish data
                         then Inl (Exn ''Cannot read properties of null (reading limit)'')
                         else
                           let f = (\<lambda>k. jsget data k);
                               p = parseFloat (lib R);
                               l1 = setIfDefined (f ''limit'') (p (f ''limit'')) JNull;
                               u1 = setIfDefined (f ''usage'') (p (f ''usage'')) JNull;
                               l2 = setIfDefined (f ''quota'') (p (f ''quota'')) l1;
                               u2 = setIfDefined (f ''used'') (p (f ''used'')) u1;
                               l3 = setIfDefined (f ''balance'') (p (f ''balance'')) l2;
                               u3 = setIfDefined (f ''consumed'') (p (f ''consumed'')) u2;
                               l4 = setIfDefined (f ''system_hard_limit_usd'')
                                      (p (f ''system_hard_limit_usd'')) l3;
                               u4 = setIfDefined (f ''total_usage'')
                                      (jsMul (lib R) (p (f ''total_usage'')) (1 / 100)) u3
                           in Inr \<lparr> cb_billingLimit = l4, cb_billingUsage = u4,
                                    cb_rawResponse = rawText res \<rparr>)))"

section \<open>The database and the mail provider\<close>

text \<open>
  The rows the code writes and reads. A column that holds JSON text is the value the
  text stands for. Writes are taken to succeed.
\<close>

record snapshot =
  id_snap :: nat
  siteId :: string
  modelsJson :: jsval
  hash :: string
  fetchedAt :: nat
  snapRawResponse :: "string option"
  errorMessage :: "string option"
  snapStatusCode :: "nat option"
  snapResponseTime :: "nat option"
  billingLimit :: jsval
  billingUsage :: jsval
  billingError :: "string option"
  checkInSuccess :: "bool option"
  checkInMessage :: jsval
  checkInQuota :: jsval
  checkInError :: jsval

record modelDiff =
  md_siteId :: string
  diffAt :: nat
  addedJson :: jsval
  removedJson :: jsval
  changedJson :: jsval
  snapshotFromId :: nat
  snapshotToId :: nat

text \<open>
  The mail settings. \<open>notifyEmailsParsed\<close> is what \<^verbatim>\<open>JSON.parse\<close> makes of the trimmed
  \<open>notifyEmails\<close> text (it is read only when that text starts with a bracket).
\<close>

record emailConfig =
  enabled :: bool
  resendApiKeyEnc :: "string option"
  notifyEmails :: "string option"
  notifyEmailsParsed :: "string + jsval"


record siteChange =
  sc_siteName :: string
  sc_diff :: diff

record failedSite =
  fs_siteName :: string
  fs_error :: string

text \<open>
  A mail handed to the provider: the key the client was built with, the recipients,
  and the values its subject and HTML are printed from (the printing itself is left
  out).
\<close>

datatype mailBody = SingleSite string diff | Digest "siteChange list" "failedSite list"

record mail =
  apiKeyUsed :: string
  recipients :: "jsval list"
  content :: mailBody

text \<open>
  The state a check runs in: the tables, the \<^verbatim>\<open>lastCheckedAt\<close> writes to site rows
  (newest first), the global schedule's last run, and the mails handed to the provider
  so far.
\<close>

record state =
  snapshots :: "snapshot list"
  modelDiffs :: "modelDiff list"
  siteUpdates :: "(string \<times> nat) list"
  emailConfigRow :: "emailConfig option"
  sites :: "site list"
  scheduleLastRun :: "nat option"
  sent :: "mail list"

section \<open>notifier.js\<close>

text \<open>
  \<^verbatim>\<open>trim\<close>, for the ASCII white space (the other characters that \<^verbatim>\<open>trim\<close> removes
  are left out).
\<close>

definition isSpace :: "char \<Rightarrow> bool" where
  "isSpace c = (c \<in> set [CHR 0x20, CHR 0x09, CHR 0x0A, CHR 0x0B, CHR 0x0C, CHR 0x0D])"

definition trim :: "string \<Rightarrow> string" where
  "trim s = rev (dropWhile isSpace (rev (dropWhile isSpace s)))"

fun splitWhere :: "(char \<Rightarrow> bool) \<Rightarrow> string \<Rightarrow> string list" where
  "splitWhere p [] = [[]]"
| "splitWhere p (x # xs) =
     (if p x then [] # splitWhere p xs
      else (case splitWhere p xs of s # ss \<Rightarrow> (x # s) # ss | [] \<Rightarrow> [[x]]))"

text \<open>
  The recipient list: a JSON array when the text starts with a bracket, else the
  non-empty trimmed pieces between commas and semicolons. A text that does not parse
  is a throw (which both senders catch).
\<close>

definition parseRecipients :: "emailConfig \<Rightarrow> exn + jsval list" where
  "parseRecipients c =
     (let emailStr = trim (strOr (notifyEmails c) [])
      in if take 1 emailStr = ''[''
         then (case notifyEmailsParsed c of
                 Inl syntaxError \<Rightarrow> Inl (Exn syntaxError)
               | Inr v \<Rightarrow> (case v of
                             JArr xs \<Rightarrow> Inr xs
                           | _ \<Rightarrow> Inl (Exn ''emails.join is not a function'')))
         else Inr (map JStr (filter (\<lambda>e. e \<noteq> [])
                     (map trim (splitWhere (\<lambda>ch. ch = CHR '','' \<or> ch = CHR '';'') emailStr)))))"

text \<open>
  The first half of both senders, up to the mail client: the settings must exist and
  be enabled, the recipients must parse and be non-empty, the provider key must
  decrypt, and the client must get a key (its own, or the one of the environment).
  Each failure ends the send: \<open>None\<close>.
\<close>

definition mailSetup :: "runtime \<Rightarrow> state \<Rightarrow> (string \<times> jsval list) option" where
  "mailSetup R st =
     (case emailConfigRow st of
        None \<Rightarrow> None
      | Some config \<Rightarrow>
          if \<not> enabled config then None
          else (case parseRecipients config of
                  Inl e \<Rightarrow> None
                | Inr emails \<Rightarrow>
                    if emails = [] then None
                    else (case decryptR R (resendApiKeyEnc config) of
                            Inl e \<Rightarrow> None
                          | Inr apiKey \<Rightarrow>
                              if apiKey \<noteq> [] then Some (apiKey, emails)
                              else if truthyStr (resendEnvKey R)
                              then Some (strOr (resendEnvKey R) [], emails)
                              else None)))"

text \<open>
  \<open>sendModelChangeNotification\<close>: nothing is thrown to the caller, whatever happens.
\<close>

definition sendModelChangeNotification :: "runtime \<Rightarrow> string \<Rightarrow> diff \<Rightarrow> state \<Rightarrow> state" where
  "sendModelChangeNotification R siteName d st =
     (case mailSetup R st of
        None \<Rightarrow> st
      | Some (apiKey, emails) \<Rightarrow>
          if \<not> (added d \<noteq> [] \<or> removed d \<noteq> []) then st
          else st \<lparr> sent := sent st @
                 [\<lparr> apiKeyUsed = apiKey, recipients = emails,
                    content = SingleSite siteName d \<rparr>] \<rparr>)"


section \<open>run.js: checking one site\<close>

record options =
  skipNotification :: bool
  isManual :: bool

text \<open>The four check-in variables of \<open>checkSite\<close>, all \<^verbatim>\<open>null\<close> at first.\<close>

record checkInVars =
  v_success :: "bool option"
  v_message :: jsval
  v_quota :: jsval
  v_error :: jsval

definition noCheckIn :: checkInVars where
  "noCheckIn = \<lparr> v_success = None, v_message = JNull, v_quota = JNull, v_error = JNull \<rparr>"

text \<open>
  The check-in step. \<open>performCheckIn\<close> never throws, so the \<^verbatim>\<open>catch\<close> around the call
  has no case here.
\<close>

definition checkInStep :: "runtime \<Rightarrow> world \<Rightarrow> site \<Rightarrow> bool \<Rightarrow> checkInVars" where
  "checkInStep R W s needCheckIn =
     (if needCheckIn
      then let r = performCheckIn R W s
           in \<lparr> v_success = Some (ci_success r), v_message = ci_message r,
                v_quota = ci_quota r, v_error = ci_error r \<rparr>
      else noCheckIn)"

text \<open>
  What \<open>checkSite\<close> returns. The two kinds of run return objects with different
  properties; a property an object does not have is \<open>None\<close>.
\<close>

record checkResult =
  r_ok :: bool
  hasChanges :: bool
  r_diff :: "diff option"
  r_siteName :: string
  checkInOnly :: "bool option"
  checkInChanged :: "bool option"
  r_checkInResult :: "checkInVars option"

subsection \<open>Billing inside a check\<close>

text \<open>The billing calls a check starts, with their settled outcomes.\<close>

datatype billingPlan =
    NoBilling
  | UserInfoCall "exn + userInfo"
  | CustomCall "exn + customBilling"
  | OpenAICalls "exn + jsval" "exn + jsval"

text \<open>
  Which calls are started. For the voapi variant the stored token is decrypted here,
  outside every \<^verbatim>\<open>try\<close>: a failure leaves \<open>checkSite\<close> at once.
\<close>

definition billingPromises :: "runtime \<Rightarrow> world \<Rightarrow> site \<Rightarrow> exn + billingPlan" where
  "billingPromises R W s =
     (if apiType s = Some ''newapi'' \<or> apiType s = Some ''veloera''
      then Inr (if unlimitedQuota s then NoBilling
                else UserInfoCall (fetchUserInfoNewapi (lib R) W (strOr (apiType s) [])))
      else if apiType s = Some ''donehub''
      then Inr (if unlimitedQuota s then NoBilling
                else UserInfoCall (fetchUserInfoDonehub (lib R) W))
      else if apiType s = Some ''voapi''
      then (if unlimitedQuota s then Inr NoBilling
            else case (if truthyStr (billingAuthValue s) then decryptR R (billingAuthValue s)
                       else Inr []) of
                   Inl e \<Rightarrow> Inl e
                 | Inr jwtToken \<Rightarrow>
                     Inr (if jwtToken \<noteq> [] then UserInfoCall (fetchUserInfoVoapi (lib R) W)
                          else NoBilling))
      else Inr (if unlimitedQuota s then NoBilling
                else if truthyStr (billingUrl s) then CustomCall (fetchCustomBilling R W s)
                else OpenAICalls (fetchBillingSubscription W) (fetchBillingUsage (lib R) W)))"

record billingVars =
  b_limit :: jsval
  b_usage :: jsval
  b_error :: "string option"

text \<open>\<^verbatim>\<open>reason?.message || String(reason)\<close> for a rejected call.\<close>

definition reasonText :: "exn \<Rightarrow> string" where
  "reasonText e = (if message e = [] then ''Error'' else message e)"

definition settleBilling :: "billingPlan \<Rightarrow> billingVars" where
  "settleBilling plan =
     (case plan of
        NoBilling \<Rightarrow> \<lparr> b_limit = JNull, b_usage = JNull, b_error = None \<rparr>
      | UserInfoCall r \<Rightarrow>
          (case r of
             Inr u \<Rightarrow> \<lparr> b_limit = quota u, b_usage = usedQuota u, b_error = None \<rparr>
           | Inl e \<Rightarrow> \<lparr> b_limit = JNull, b_usage = JNull, b_error = Some (reasonText e) \<rparr>)
      | CustomCall r \<Rightarrow>
          (case r of
             Inr c \<Rightarrow> \<lparr> b_limit = cb_billingLimit c, b_usage = cb_billingUsage c,
                        b_error = None \<rparr>
           | Inl e \<Rightarrow> \<lparr> b_limit = JNull, b_usage = JNull, b_error = Some (reasonText e) \<rparr>)
      | OpenAICalls r1 r2 \<Rightarrow>
          (let errors =
                 (case r1 of Inl e \<Rightarrow> [''Subscription: '' @ reasonText e] | Inr v \<Rightarrow> [])
                 @ (case r2 of Inl e \<Rightarrow> [''Usage: '' @ reasonText e] | Inr v \<Rightarrow> [])
           in \<lparr> b_limit = (case r1 of Inr v \<Rightarrow> v | Inl e \<Rightarrow> JNull),
                b_usage = (case r2 of Inr v \<Rightarrow> v | Inl e \<Rightarrow> JNull),
                b_error = (if errors = [] then None else Some (joinWith ''; '' errors)) \<rparr>))"

definition isNumber :: "jsval \<Rightarrow> bool" where
  "isNumber v = (case v of JNum n \<Rightarrow> True | JNaN \<Rightarrow> True | _ \<Rightarrow> False)"

text \<open>
  The billing summary is printed with \<^verbatim>\<open>toFixed\<close>, which exists on numbers only: on
  any other value that is not \<^verbatim>\<open>null\<close> the print throws, inside the \<^verbatim>\<open>try\<close>.
\<close>

definition summaryThrows :: "site \<Rightarrow> billingVars \<Rightarrow> bool" where
  "summaryThrows s b =
     (\<not> unlimitedQuota s
      \<and> ((b_limit b \<noteq> JNull \<and> \<not> isNumber (b_limit b))
         \<or> (b_usage b \<noteq> JNull \<and> \<not> isNumber (b_usage b))))"

subsection \<open>Snapshots\<close>

text \<open>
  \<^verbatim>\<open>findFirst\<close> over the snapshots of a site without an error message, newest
  \<open>fetchedAt\<close> first. Which row the database gives among equal timestamps is not
  specified; here it is the one written first.
\<close>

definition findLastSnap :: "state \<Rightarrow> string \<Rightarrow> snapshot option" where
  "findLastSnap st sid =
     foldl (\<lambda>best s. case best of
                        None \<Rightarrow> Some s
                      | Some b \<Rightarrow> if fetchedAt b < fetchedAt s then Some s else best)
           None
           (filter (\<lambda>s. siteId s = sid \<and> errorMessage s = None) (snapshots st))"

definition createSnapshot :: "snapshot \<Rightarrow> state \<Rightarrow> state" where
  "createSnapshot row st = st \<lparr> snapshots := snapshots st @ [row] \<rparr>"

definition touchSite :: "site \<Rightarrow> nat \<Rightarrow> state \<Rightarrow> state" where
  "touchSite s now st = st \<lparr> siteUpdates := (id_site s, now) # siteUpdates st \<rparr>"

text \<open>The row of a run that only checks in: no models, no hash, no error message.\<close>

definition checkInOnlyRow :: "state \<Rightarrow> site \<Rightarrow> nat \<Rightarrow> checkInVars \<Rightarrow> snapshot" where
  "checkInOnlyRow st s now v =
     \<lparr> id_snap = length (snapshots st), siteId = id_site s, modelsJson = JArr [], hash = [],
       fetchedAt = now, snapRawResponse = None, errorMessage = None, snapStatusCode = None,
       snapResponseTime = None, billingLimit = JNull, billingUsage = JNull,
       billingError = None, checkInSuccess = v_success v, checkInMessage = v_message v,
       checkInQuota = v_quota v, checkInError = v_error v \<rparr>"

text \<open>
  What the \<^verbatim>\<open>try\<close> of \<open>checkSite\<close> can catch: the object a fetch function throws, or
  the TypeError of the billing summary.
\<close>

datatype thrown = Failure fetchFailure | Plain exn

text \<open>\<^verbatim>\<open>e.errorMessage || e.error?.message || String(e)\<close> and \<^verbatim>\<open>e.error || e\<close>.\<close>

definition thrownMessage :: "thrown \<Rightarrow> string" where
  "thrownMessage t =
     (case t of
        Failure f \<Rightarrow> if failedMessage f \<noteq> [] then failedMessage f
                     else if message (error f) \<noteq> [] then message (error f)
                     else ''[object Object]''
      | Plain e \<Rightarrow> ''TypeError: '' @ message e)"

definition rethrown :: "thrown \<Rightarrow> exn" where
  "rethrown t = (case t of Failure f \<Rightarrow> error f | Plain e \<Rightarrow> e)"

text \<open>The row of a failed run: the error message is set, so no later diff reads it.\<close>

definition errorRow :: "state \<Rightarrow> site \<Rightarrow> nat \<Rightarrow> thrown \<Rightarrow> checkInVars \<Rightarrow> snapshot" where
  "errorRow st s now t v =
     \<lparr> id_snap = length (snapshots st), siteId = id_site s, modelsJson = JArr [], hash = [],
       fetchedAt = now,
       snapRawResponse = (case t of Failure f \<Rightarrow> failedRawResponse f | Plain e \<Rightarrow> None),
       errorMessage = Some (thrownMessage t),
       snapStatusCode = (case t of Failure f \<Rightarrow> failedStatusCode f | Plain e \<Rightarrow> None),
       snapResponseTime = (case t of Failure f \<Rightarrow> Some (failedResponseTime f) | Plain e \<Rightarrow> None),
       billingLimit = JNull, billingUsage = JNull, billingError = None,
       checkInSuccess = v_success v, checkInMessage = v_message v,
       checkInQuota = v_quota v, checkInError = v_error v \<rparr>"

definition successRow ::
  "runtime \<Rightarrow> state \<Rightarrow> site \<Rightarrow> nat \<Rightarrow> fetchResult \<Rightarrow> billingVars \<Rightarrow> checkInVars \<Rightarrow> snapshot" where
  "successRow R st s now fr b v =
     \<lparr> id_snap = length (snapshots st), siteId = id_site s,
       modelsJson = jsonClone (JArr (models fr)), hash = hashModels (lib R) (models fr),
       fetchedAt = now, snapRawResponse = Some (rawResponse fr), errorMessage = None,
       snapStatusCode = Some (statusCode fr), snapResponseTime = Some (responseTime fr),
       billingLimit = b_limit b, billingUsage = b_usage b, billingError = b_error b,
       checkInSuccess = v_success v, checkInMessage = v_message v,
       checkInQuota = v_quota v, checkInError = v_error v \<rparr>"

subsection \<open>The check\<close>

text \<open>The fetch function chosen by the site's type.\<close>

definition fetchModelsFunc :: "runtime \<Rightarrow> world \<Rightarrow> site \<Rightarrow> fetchFailure + fetchResult" where
  "fetchModelsFunc R W s =
     (if apiType s = Some ''newapi'' \<or> apiType s = Some ''veloera''
      then fetchModelsNewapi W (strOr (apiType s) [])
      else if apiType s = Some ''donehub'' then fetchModelsDonehub W
      else fetchModels (lib R) W)"

text \<open>The body of the \<^verbatim>\<open>try\<close>: the model fetch, then the billing results and their summary.\<close>

definition tryFetch ::
  "runtime \<Rightarrow> world \<Rightarrow> site \<Rightarrow> billingPlan \<Rightarrow> thrown + (fetchResult \<times> billingVars)" where
  "tryFetch R W s plan =
     (case fetchModelsFunc R W s of
        Inl f \<Rightarrow> Inl (Failure f)
      | Inr fr \<Rightarrow>
          let b = settleBilling plan
          in if summaryThrows s b then Inl (Plain (Exn ''billingLimit.toFixed is not a function''))
             else Inr (fr, b))"

text \<open>
  Whether the check-in state changed against the last snapshot (reported in the
  result, nothing else depends on it).
\<close>

definition checkInChange :: "bool \<Rightarrow> snapshot option \<Rightarrow> checkInVars \<Rightarrow> bool" where
  "checkInChange needCheckIn lastSnap v =
     (if \<not> needCheckIn then False
      else case lastSnap of
        None \<Rightarrow> v_success v \<noteq> None
      | Some l \<Rightarrow>
          if checkInSuccess l = None \<and> v_success v \<noteq> None then True
          else if checkInSuccess l \<noteq> None \<and> v_success v \<noteq> None
                  \<and> checkInSuccess l \<noteq> v_success v then True
          else if v_success v = Some False \<and> checkInError l \<noteq> v_error v then True
          else False)"

text \<open>
  The part of \<open>checkSite\<close> after a successful fetch: the snapshot is written first, then
  the diff against the last snapshot without an error message is taken (when there is
  one and its hash differs), a diff row is written when something was added or
  removed, the notification goes out unless it is to be skipped, and the site row is
  touched. The previous list comes from \<^verbatim>\<open>JSON.parse\<close> of the stored column and the
  new one from the fetch, so the two lists share no object. \<open>computeDiff\<close> can throw on
  the stored list; that leaves the function after the snapshot was written.
\<close>

definition recordCheck ::
  "runtime \<Rightarrow> world \<Rightarrow> site \<Rightarrow> options \<Rightarrow> bool \<Rightarrow> checkInVars \<Rightarrow> fetchResult \<Rightarrow> billingVars
     \<Rightarrow> state \<Rightarrow> (exn + checkResult) \<times> state" where
  "recordCheck R W s opts needCheckIn v fr b st =
     (let hashNow = hashModels (lib R) (models fr);
          lastSnap = findLastSnap st (id_site s);
          now = nowMs W;
          changedCheckIn = checkInChange needCheckIn lastSnap v;
          snap = successRow R st s now fr b v;
          st1 = createSnapshot snap st;
          hasCheckInResult = (needCheckIn \<and> v_success v \<noteq> None);
          finish = (\<lambda>d changes st2.
             let st3 = (if changes \<and> \<not> skipNotification opts
                        then sendModelChangeNotification R (name s) d st2 else st2);
                 st4 = touchSite s now st3
             in (Inr \<lparr> r_ok = True, hasChanges = changes,
                        r_diff = (if changes then Some d else None),
                        r_siteName = name s, checkInOnly = None,
                        checkInChanged = Some changedCheckIn,
                        r_checkInResult = (if hasCheckInResult then Some v else None) \<rparr>,
                 st4))
      in case lastSnap of
           None \<Rightarrow> finish \<lparr> added = [], removed = [], changed = [] \<rparr> False st1
         | Some l \<Rightarrow>
             if hash l = hashNow
             then finish \<lparr> added = [], removed = [], changed = [] \<rparr> False st1
             else (case (let prev = (case modelsJson l of JArr xs \<Rightarrow> xs | _ \<Rightarrow> [])
                         in computeDiff (locate 0 prev) (locate (length prev) (models fr))) of
                     Inl e \<Rightarrow> (Inl e, st1)
                   | Inr d \<Rightarrow>
                       let changes = (added d \<noteq> [] \<or> removed d \<noteq> []);
                           st2 = (if changes
                                  then st1 \<lparr> modelDiffs := modelDiffs st1 @
                                         [\<lparr> md_siteId = id_site s, diffAt = now,
                                            addedJson = jsonClone (JArr (map entry (added d))),
                                            removedJson = jsonClone (JArr (map entry (removed d))),
                                            changedJson = jsonClone (JArr (map entry (changed d))),
                                            snapshotFromId = id_snap l,
                                            snapshotToId = id_snap snap \<rparr>] \<rparr>
                                  else st1)
                       in finish d changes st2))"

text \<open>
  \<open>checkSite\<close>. The result is what the promise settles to (\<open>Inl\<close>: rejected) and the
  state it leaves.
\<close>

definition checkSite ::
  "runtime \<Rightarrow> world \<Rightarrow> site \<Rightarrow> options \<Rightarrow> state \<Rightarrow> (exn + checkResult) \<times> state" where
  "checkSite R W s opts st =
     (case decryptR R (apiKeyEnc s) of
        Inl e \<Rightarrow> (Inl e, st)
      | Inr apiKey \<Rightarrow>
          let needCheckIn = shouldCheckIn s (isManual opts);
              needCheckModels = shouldCheckModels s (isManual opts);
              v = checkInStep R W s needCheckIn;
              now = nowMs W
          in if \<not> needCheckModels
             then (Inr \<lparr> r_ok = True, hasChanges = False, r_diff = None, r_siteName = name s,
                         checkInOnly = Some True, checkInChanged = None,
                         r_checkInResult = Some v \<rparr>,
                   touchSite s now (createSnapshot (checkInOnlyRow st s now v) st))
             else (case billingPromises R W s of
                     Inl e \<Rightarrow> (Inl e, st)
                   | Inr plan \<Rightarrow>
                       (case tryFetch R W s plan of
                          Inl t \<Rightarrow>
                            (Inl (rethrown t),
                             touchSite s now (createSnapshot (errorRow st s now t v) st))
                        | Inr (fr, b) \<Rightarrow> recordCheck R W s opts needCheckIn v fr b st)))"

section \<open>scheduler.js: the global task\<close>





subsection \<open>Notions for stating what a batch does\<close>



text \<open>The sites whose check reported changes, and the sites whose check threw.\<close>

fun changesOf :: "(site \<times> (exn + checkResult)) list \<Rightarrow> siteChange list" where
  "changesOf [] = []"
| "changesOf ((s, Inr r) # os) =
     (case r_diff r of
        Some d \<Rightarrow> if hasChanges r then \<lparr> sc_siteName = r_siteName r, sc_diff = d \<rparr> # changesOf os
                  else changesOf os
      | None \<Rightarrow> changesOf os)"
| "changesOf ((s, Inl e) # os) = changesOf os"



section \<open>Values for the worked examples\<close>

text \<open>A site row with every optional column empty.\<close>

definition site0 :: site where
  "site0 = \<lparr> id_site = ''s1'', name = ''Site One'', baseUrl = ''https://one.example'',
     apiType = None, apiKeyEnc = None, userId = None, unlimitedQuota = False,
     billingUrl = None, billingAuthType = None, billingAuthValue = None,
     billingLimitField = None, billingUsageField = None, enableCheckIn = False,
     checkInMode = None, scheduleCron = None, timezone = None \<rparr>"

text \<open>
  A stand-in cipher of the right shape for the worked examples (the theorems are about
  every cipher): a fixed mask as keystream, a 16-byte checksum as tag.
\<close>

definition toyGcm :: aes_gcm where
  "toyGcm = \<lparr> ctr = (\<lambda>k iv bs. map (\<lambda>b. b XOR 0x5a) bs),
              ghash_tag = (\<lambda>k iv ct. replicate 16 (foldr (+) (k @ iv @ ct) 0)) \<rparr>"

definition key0 :: "byte list" where
  "key0 = replicate 32 7"

definition iv0 :: "byte list" where
  "iv0 = [1, 2, 3, 4, 5, 6, 7, 8, 9, 10, 11, 12]"


text \<open>
  Stand-ins for the runtime's functions in the worked examples: numbers are printed in
  decimal (at most twenty fraction digits), strings are compared byte by byte, and only
  strings of decimal digits convert to numbers.
\<close>

fun fracDigits :: "nat \<Rightarrow> rat \<Rightarrow> string" where
  "fracDigits 0 f = []"
| "fracDigits (Suc k) f =
     (if f = 0 then []
      else digitChar (nat \<lfloor>f * 10\<rfloor>) # fracDigits k (f * 10 - of_int \<lfloor>f * 10\<rfloor>))"

definition showRat :: "rat \<Rightarrow> string" where
  "showRat r =
     (let a = \<bar>r\<bar>; whole = \<lfloor>a\<rfloor>; f = a - of_int whole
      in (if r < 0 then ''-'' else []) @ decimal (nat whole)
         @ (if f = 0 then [] else ''.'' @ fracDigits 20 f))"

fun compareBytes :: "string \<Rightarrow> string \<Rightarrow> int" where
  "compareBytes [] [] = 0"
| "compareBytes [] (y # ys) = -1"
| "compareBytes (x # xs) [] = 1"
| "compareBytes (x # xs) (y # ys) =
     (if (of_char x :: nat) < of_char y then -1
      else if (of_char y :: nat) < of_char x then 1
      else compareBytes xs ys)"

fun digitsValue :: "nat \<Rightarrow> string \<Rightarrow> nat option" where
  "digitsValue acc [] = Some acc"
| "digitsValue acc (c # cs) =
     (if (48 :: nat) \<le> of_char c \<and> (of_char c :: nat) \<le> 57
      then digitsValue (acc * 10 + (of_char c - 48)) cs else None)"

definition readDigits :: "string \<Rightarrow> rat option" where
  "readDigits s = (if s = [] then None else map_option of_nat (digitsValue 0 s))"

definition lib0 :: jslib where
  "lib0 = \<lparr> numToString = showRat,
            stringToNumber = (\<lambda>s. if s = [] then Some 0 else readDigits s),
            parseFloatStr = readDigits,
            localeCompare = compareBytes \<rparr>"

text \<open>An upstream that answers 200 with the JSON text of a value.\<close>

definition respondJson :: "jsval \<Rightarrow> fetched" where
  "respondJson v = Responded \<lparr> status = 200, rawText = stringify lib0 v, parsed = Inr v \<rparr>"

definition world0 :: world where
  "world0 = \<lparr> nowMs = 1000, entryClock = (\<lambda>i. 1000), elapsedMs = 120,
       modelsResp = Rejected ''fetch failed'', userInfoResp = Rejected ''fetch failed'',
       subscriptionResp = Rejected ''fetch failed'', usageResp = Rejected ''fetch failed'',
       customBillingResp = Rejected ''fetch failed'', checkInResp = Rejected ''fetch failed'' \<rparr>"

text \<open>A newapi listing of the given entries, and the hash the check computes of a fetch.\<close>

definition listing :: "jsval list \<Rightarrow> world" where
  "listing xs = world0 \<lparr> modelsResp :=
       respondJson (JObj [(''success'', JBool True), (''data'', JArr xs)]) \<rparr>"

definition fetchedHash :: "fetchFailure + fetchResult \<Rightarrow> string option" where
  "fetchedHash r = (case r of Inl e \<Rightarrow> None | Inr x \<Rightarrow> Some (hashModels lib0 (models x)))"

definition modelA :: jsval where
  "modelA = JObj [(''id'', JStr ''a''), (''owned_by'', JStr ''x'')]"

definition modelB :: jsval where
  "modelB = JObj [(''id'', JStr ''b''), (''owned_by'', JStr ''x'')]"

text \<open>An OpenAI-compatible listing of the given entries.\<close>

definition openaiListing :: "jsval list \<Rightarrow> world" where
  "openaiListing xs = world0 \<lparr> modelsResp :=
       respondJson (JObj [(''object'', JStr ''list''), (''data'', JArr xs)]) \<rparr>"

definition runtime0 :: runtime where
  "runtime0 = \<lparr> gcm = toyGcm, moduleKey = key0, lib = lib0, resendEnvKey = None \<rparr>"


text \<open>
  Mail settings that allow a send, an empty database with them, and the options of a
  scheduled and of a manual check of one site.
\<close>

definition mailOn :: emailConfig where
  "mailOn = \<lparr> enabled = True, resendApiKeyEnc = Some (encrypt toyGcm key0 iv0 ''re_test''),
       notifyEmails = Some ''ops@example.com'', notifyEmailsParsed = Inl ''Unexpected token'' \<rparr>"

definition state0 :: state where
  "state0 = \<lparr> snapshots = [], modelDiffs = [], siteUpdates = [], emailConfigRow = Some mailOn,
       sites = [], scheduleLastRun = None, sent = [] \<rparr>"

definition scheduled :: options where
  "scheduled = \<lparr> skipNotification = False, isManual = False \<rparr>"

definition manual :: options where
  "manual = \<lparr> skipNotification = False, isManual = True \<rparr>"




definition siteV :: site where
  "siteV = site0 \<lparr> id_site := ''v'', name := ''V'', apiType := Some ''veloera'',
                   userId := Some ''7'', unlimitedQuota := True, enableCheckIn := True,
                   checkInMode := Some ''checkin'' \<rparr>"







section \<open>Facts about the Map model\<close>

lemma mapSet_keys:
  "map fst (mapSet k v m) = (if k \<in> set (map fst m) then map fst m else map fst m @ [k])"
  by (induction m) force+

lemma mapSet_fresh: "k \<notin> set (map fst m) \<Longrightarrow> mapSet k v m = m @ [(k, v)]"
  by (induction m) auto

lemma mapSet_map_of: "map_of (mapSet k v m) = (map_of m)(k \<mapsto> v)"
  by (induction m) (auto simp: fun_eq_iff)

lemma newMap_snoc: "newMap (es @ [(k, v)]) = mapSet k v (newMap es)"
  by (simp add: newMap_def)

lemma newMap_Nil: "newMap [] = []"
  by (simp add: newMap_def)

text \<open>The keys of a Map built from entries: each key once, in order of first occurrence.\<close>

lemma newMap_keys: "map fst (newMap es) = rev (remdups (rev (map fst es)))"
proof (induction es rule: rev_induct)
  case Nil
  show ?case by (simp add: newMap_Nil)
next
  case (snoc e es)
  obtain k v where e: "e = (k, v)" by (cases e)
  have s: "set (map fst (newMap es)) = set (map fst es)"
    using snoc.IH by simp
  show ?case
    unfolding e newMap_snoc mapSet_keys s using snoc.IH by auto
qed

lemma newMap_distinct: "distinct (map fst (newMap es))"
  by (simp add: newMap_keys)

text \<open>The value a Map holds for a key is the one of the last entry with that key.\<close>

lemma newMap_map_of: "map_of (newMap es) = map_of (rev es)"
proof (induction es rule: rev_induct)
  case Nil
  show ?case by (simp add: newMap_Nil)
next
  case (snoc e es)
  obtain k v where e: "e = (k, v)" by (cases e)
  show ?case
    unfolding e newMap_snoc mapSet_map_of using snoc.IH by (simp add: fun_eq_iff)
qed

lemma newMap_id: "distinct (map fst es) \<Longrightarrow> newMap es = es"
proof (induction es rule: rev_induct)
  case Nil
  show ?case by (simp add: newMap_Nil)
next
  case (snoc e es)
  obtain k v where e: "e = (k, v)" by (cases e)
  from snoc.prems have d: "distinct (map fst es)" and n: "k \<notin> set (map fst es)"
    by (auto simp: e)
  show ?case
    unfolding e newMap_snoc using snoc.IH [OF d] n by (simp add: mapSet_fresh)
qed

lemma newMap_entry:
  assumes "(k, m) \<in> set (newMap es)"
  shows "map_of (rev es) k = Some m"
proof -
  have "map_of (newMap es) k = Some m"
    using assms newMap_distinct [of es] by simp
  then show ?thesis by (simp add: newMap_map_of)
qed

section \<open>The diff of two model lists\<close>

lemma map_of_find: "map_of (map (\<lambda>m. (f m, m)) xs) k = find (\<lambda>m. f m = k) xs"
  by (induction xs) auto

lemma newMap_tagged:
  assumes "(k, m) \<in> set (newMap (map (\<lambda>m. (f m, m)) xs))"
  shows "find (\<lambda>x. f x = k) (rev xs) = Some m"
proof -
  have "map_of (map (\<lambda>m. (f m, m)) (rev xs)) k = Some m"
    using newMap_entry [OF assms] by (simp add: rev_map)
  then show ?thesis by (simp only: map_of_find)
qed

lemma find_SomeD: "find P xs = Some x \<Longrightarrow> P x \<and> x \<in> set xs"
  by (induction xs) (auto split: if_splits)

lemma mapHas_newMap: "mapHas (newMap (map (\<lambda>m. (f m, m)) A)) k = (k \<in> f ` set A)"
proof -
  have "set (map fst (newMap (map (\<lambda>m. (f m, m)) A))) = f ` set A"
    by (simp add: newMap_keys comp_def)
  then show ?thesis by (simp add: mapHas_def)
qed

lemma keyedDiff_keys:
  "map keyOf (keyedDiff A B) = filter (\<lambda>k. k \<notin> keyOf ` set A) (rev (remdups (rev (map keyOf B))))"
proof -
  let ?M = "newMap (map (\<lambda>m. (keyOf m, m)) B)"
  have tag: "\<forall>e \<in> set ?M. keyOf (snd e) = fst e"
  proof
    fix e assume "e \<in> set ?M"
    then have "(fst e, snd e) \<in> set ?M" by simp
    from newMap_tagged [OF this] show "keyOf (snd e) = fst e"
      by (auto dest: find_SomeD)
  qed
  have "map keyOf (keyedDiff A B) = map fst (filter (\<lambda>(k, m). k \<notin> keyOf ` set A) ?M)"
    unfolding keyedDiff_def mapHas_newMap using tag by (auto simp: comp_def)
  also have "\<dots> = filter (\<lambda>k. k \<notin> keyOf ` set A) (map fst ?M)"
    by (simp add: filter_map comp_def case_prod_unfold)
  also have "map fst ?M = rev (remdups (rev (map keyOf B)))"
    by (simp add: newMap_keys comp_def)
  finally show ?thesis .
qed

lemma keyedDiff_last:
  assumes "m \<in> set (keyedDiff A B)"
  shows "find (\<lambda>x. keyOf x = keyOf m) (rev B) = Some m"
proof -
  from assms obtain k where km: "(k, m) \<in> set (newMap (map (\<lambda>m. (keyOf m, m)) B))"
    by (auto simp: keyedDiff_def)
  from newMap_tagged [OF km] have f: "find (\<lambda>x. keyOf x = k) (rev B) = Some m" .
  then have "keyOf m = k" by (auto dest: find_SomeD)
  with f show ?thesis by simp
qed

lemma keyedDiff_distinct:
  assumes "distinct (map keyOf B)"
  shows "keyedDiff A B = filter (\<lambda>m. keyOf m \<notin> keyOf ` set A) B"
proof -
  have "distinct (map fst (map (\<lambda>m. (keyOf m, m)) B))"
    using assms by (simp add: comp_def)
  then have "newMap (map (\<lambda>m. (keyOf m, m)) B) = map (\<lambda>m. (keyOf m, m)) B"
    by (rule newMap_id)
  then show ?thesis
    by (simp add: keyedDiff_def mapHas_newMap filter_map comp_def)
qed

lemma keyedDiff_self: "keyedDiff A A = []"
proof -
  have "\<forall>e \<in> set (newMap (map (\<lambda>m. (keyOf m, m)) A)). mapHas (newMap (map (\<lambda>m. (keyOf m, m)) A)) (fst e)"
    by (simp add: mapHas_def)
  then show ?thesis
    by (auto simp: keyedDiff_def filter_empty_conv)
qed

lemma computeDiff_keyed:
  assumes "\<forall>m \<in> set (A @ B). \<not> nullish (entry m)"
  shows "computeDiff A B = Inr \<lparr> added = keyedDiff A B, removed = keyedDiff B A, changed = [] \<rparr>"
  using assms by (simp add: computeDiff_def keyedDiff_def Let_def)

text \<open>When no id is an object or an array, the keys are the ids.\<close>

lemma keyOf_primitive:
  assumes "\<forall>m \<in> set (A @ B). \<not> isObject (idOf (entry m))"
  shows "map keyOf B = map (\<lambda>m. Prim (idOf (entry m))) B"
    and "m \<in> set B \<Longrightarrow> (keyOf m \<notin> keyOf ` set A) = (idOf (entry m) \<notin> (\<lambda>x. idOf (entry x)) ` set A)"
  using assms by (auto simp: keyOf_def image_iff)

lemma keyedDiff_by_id:
  assumes "\<forall>m \<in> set (A @ B). \<not> isObject (idOf (entry m))"
    and "distinct (map (\<lambda>m. idOf (entry m)) B)"
  shows "keyedDiff A B = filter (\<lambda>m. idOf (entry m) \<notin> (\<lambda>x. idOf (entry x)) ` set A) B"
proof -
  have "map keyOf B = map (Prim \<circ> (\<lambda>m. idOf (entry m))) B"
    using keyOf_primitive(1) [OF assms(1)] by (simp add: comp_def)
  then have "distinct (map keyOf B)"
    using assms(2) by (simp add: distinct_map inj_on_def comp_def)
  then have "keyedDiff A B = filter (\<lambda>m. keyOf m \<notin> keyOf ` set A) B"
    by (rule keyedDiff_distinct)
  also have "\<dots> = filter (\<lambda>m. idOf (entry m) \<notin> (\<lambda>x. idOf (entry x)) ` set A) B"
    using keyOf_primitive(2) [OF assms(1)] by (intro filter_cong) auto
  finally show ?thesis .
qed

text \<open>
  Claim C2, as the code has it. The lists \<open>A\<close> and \<open>B\<close> hold model objects (no
  entry \<^verbatim>\<open>null\<close> or \<^verbatim>\<open>undefined\<close>), and ids are compared the way a \<^verbatim>\<open>Map\<close>
  compares its keys (\<open>keyOf\<close>): primitives by value, objects and arrays by reference.
  \<open>computeDiff A B\<close> returns a diff whose \<open>changed\<close> is empty and whose \<open>added\<close> holds
  one entry for each key of \<open>B\<close> that no entry of \<open>A\<close> has: the keys are those of \<open>B\<close>
  absent from \<open>A\<close>, each once, in order of first occurrence in \<open>B\<close>, and the entry
  kept for a key is the last entry of \<open>B\<close> with that key. When the keys of \<open>B\<close> are
  pairwise distinct, \<open>added\<close> is exactly the entries of \<open>B\<close> whose key is absent from
  \<open>A\<close>, in the order of \<open>B\<close>; when moreover no id is an object or an array, it is
  exactly the entries of \<open>B\<close> whose id is absent from \<open>A\<close>. The same holds for
  \<open>removed\<close> with \<open>A\<close> and \<open>B\<close> exchanged, and \<open>computeDiff A A\<close> has empty
  \<open>added\<close> and \<open>removed\<close>.
\<close>

theorem computeDiff_spec:
  assumes "\<forall>m \<in> set (A @ B). \<not> nullish (entry m)"
  shows "\<exists>d. computeDiff A B = Inr d
     \<and> changed d = []
     \<and> map keyOf (added d) = filter (\<lambda>k. k \<notin> keyOf ` set A) (rev (remdups (rev (map keyOf B))))
     \<and> (\<forall>m \<in> set (added d). find (\<lambda>x. keyOf x = keyOf m) (rev B) = Some m)
     \<and> (distinct (map keyOf B) \<longrightarrow> added d = filter (\<lambda>m. keyOf m \<notin> keyOf ` set A) B)
     \<and> ((\<forall>m \<in> set (A @ B). \<not> isObject (idOf (entry m))) \<and> distinct (map (\<lambda>m. idOf (entry m)) B)
          \<longrightarrow> added d = filter (\<lambda>m. idOf (entry m) \<notin> (\<lambda>x. idOf (entry x)) ` set A) B)
     \<and> map keyOf (removed d) = filter (\<lambda>k. k \<notin> keyOf ` set B) (rev (remdups (rev (map keyOf A))))
     \<and> (\<forall>m \<in> set (removed d). find (\<lambda>x. keyOf x = keyOf m) (rev A) = Some m)
     \<and> (distinct (map keyOf A) \<longrightarrow> removed d = filter (\<lambda>m. keyOf m \<notin> keyOf ` set B) A)
     \<and> ((\<forall>m \<in> set (A @ B). \<not> isObject (idOf (entry m))) \<and> distinct (map (\<lambda>m. idOf (entry m)) A)
          \<longrightarrow> removed d = filter (\<lambda>m. idOf (entry m) \<notin> (\<lambda>x. idOf (entry x)) ` set B) A)
     \<and> computeDiff A A = Inr \<lparr> added = [], removed = [], changed = [] \<rparr>"
proof -
  let ?d = "\<lparr> added = keyedDiff A B, removed = keyedDiff B A, changed = [] \<rparr>"
  have B': "\<forall>m \<in> set (B @ A). \<not> nullish (entry m)" and A': "\<forall>m \<in> set (A @ A). \<not> nullish (entry m)"
    using assms by auto
  have flip: "(\<forall>m \<in> set (A @ B). \<not> isObject (idOf (entry m)))
                \<Longrightarrow> (\<forall>m \<in> set (B @ A). \<not> isObject (idOf (entry m)))"
    by auto
  have "computeDiff A B = Inr ?d" by (rule computeDiff_keyed [OF assms])
  moreover have "computeDiff A A = Inr \<lparr> added = [], removed = [], changed = [] \<rparr>"
    using computeDiff_keyed [OF A'] by (simp add: keyedDiff_self)
  ultimately show ?thesis
    using keyedDiff_by_id [of A B] keyedDiff_by_id [OF flip]
    by (intro exI [of _ ?d]) (simp add: keyedDiff_keys keyedDiff_last keyedDiff_distinct)
qed

text \<open>
  The spec's example, one model known and a second one appearing; and two lists parsed
  apart whose one model has an object as its id: the two ids are different keys, so
  the model is reported both as added and as removed.
\<close>

theorem computeDiff_spec_witness:
  "computeDiff (locate 0 [JObj [(''id'', JStr ''gpt-3.5'')]])
               (locate 1 [JObj [(''id'', JStr ''gpt-3.5'')], JObj [(''id'', JStr ''gpt-4'')]])
   = Inr \<lparr> added = [\<lparr> entry = JObj [(''id'', JStr ''gpt-4'')], idRef = 2 \<rparr>], removed = [],
           changed = [] \<rparr>
   \<and> computeDiff (locate 0 [JObj [(''id'', JObj [(''k'', JNum 1)])]])
                 (locate 1 [JObj [(''id'', JObj [(''k'', JNum 1)])]])
   = Inr \<lparr> added = [\<lparr> entry = JObj [(''id'', JObj [(''k'', JNum 1)])], idRef = 1 \<rparr>],
           removed = [\<lparr> entry = JObj [(''id'', JObj [(''k'', JNum 1)])], idRef = 0 \<rparr>],
           changed = [] \<rparr>"
proof -
  let ?A = "locate 0 [JObj [(''id'', JStr ''gpt-3.5'')]]"
  let ?B = "locate 1 [JObj [(''id'', JStr ''gpt-3.5'')], JObj [(''id'', JStr ''gpt-4'')]]"
  let ?C = "locate 0 [JObj [(''id'', JObj [(''k'', JNum 1)])]]"
  let ?D = "locate 1 [JObj [(''id'', JObj [(''k'', JNum 1)])]]"
  have h: "\<forall>m \<in> set (?A @ ?B). \<not> nullish (entry m)" by (simp add: locate_def)
  from computeDiff_spec [OF h] obtain d where
    d: "computeDiff ?A ?B = Inr d" "changed d = []"
    and a: "distinct (map keyOf ?B) \<longrightarrow> added d = filter (\<lambda>m. keyOf m \<notin> keyOf ` set ?A) ?B"
    and r: "distinct (map keyOf ?A) \<longrightarrow> removed d = filter (\<lambda>m. keyOf m \<notin> keyOf ` set ?B) ?A"
    by blast
  from a have "added d = [\<lparr> entry = JObj [(''id'', JStr ''gpt-4'')], idRef = 2 \<rparr>]"
    by (simp add: locate_def keyOf_def idOf_def isObject_def)
  moreover from r have "removed d = []"
    by (simp add: locate_def keyOf_def idOf_def isObject_def)
  ultimately have first: "computeDiff ?A ?B
      = Inr \<lparr> added = [\<lparr> entry = JObj [(''id'', JStr ''gpt-4'')], idRef = 2 \<rparr>], removed = [],
              changed = [] \<rparr>"
    using d by simp
  have h': "\<forall>m \<in> set (?C @ ?D). \<not> nullish (entry m)" by (simp add: locate_def)
  from computeDiff_spec [OF h'] obtain e where
    e: "computeDiff ?C ?D = Inr e" "changed e = []"
    and a': "distinct (map keyOf ?D) \<longrightarrow> added e = filter (\<lambda>m. keyOf m \<notin> keyOf ` set ?C) ?D"
    and r': "distinct (map keyOf ?C) \<longrightarrow> removed e = filter (\<lambda>m. keyOf m \<notin> keyOf ` set ?D) ?C"
    by blast
  from a' have "added e = [\<lparr> entry = JObj [(''id'', JObj [(''k'', JNum 1)])], idRef = 1 \<rparr>]"
    by (simp add: locate_def keyOf_def idOf_def isObject_def)
  moreover from r' have "removed e = [\<lparr> entry = JObj [(''id'', JObj [(''k'', JNum 1)])], idRef = 0 \<rparr>]"
    by (simp add: locate_def keyOf_def idOf_def isObject_def)
  ultimately have "computeDiff ?C ?D
      = Inr \<lparr> added = [\<lparr> entry = JObj [(''id'', JObj [(''k'', JNum 1)])], idRef = 1 \<rparr>],
              removed = [\<lparr> entry = JObj [(''id'', JObj [(''k'', JNum 1)])], idRef = 0 \<rparr>],
              changed = [] \<rparr>"
    using e by simp
  with first show ?thesis by simp
qed

text \<open>
  Claim C2 as stated fails on a list that repeats an id: both entries of \<open>B\<close> have an
  id absent from \<open>A\<close>, and \<open>added\<close> holds only the second.
\<close>

theorem computeDiff_duplicate_id_counterexample:
  "computeDiff []
     (locate 0 [JObj [(''id'', JStr ''a''), (''owned_by'', JStr ''x'')],
                JObj [(''id'', JStr ''a''), (''owned_by'', JStr ''y'')]])
   = Inr \<lparr> added = [\<lparr> entry = JObj [(''id'', JStr ''a''), (''owned_by'', JStr ''y'')],
                      idRef = 1 \<rparr>],
           removed = [], changed = [] \<rparr>
   \<and> filter (\<lambda>m. idOf (entry m) \<notin> (\<lambda>x. idOf (entry x)) ` set [])
       (locate 0 [JObj [(''id'', JStr ''a''), (''owned_by'', JStr ''x'')],
                  JObj [(''id'', JStr ''a''), (''owned_by'', JStr ''y'')]])
     \<noteq> [\<lparr> entry = JObj [(''id'', JStr ''a''), (''owned_by'', JStr ''y'')], idRef = 1 \<rparr>]"
  by (simp add: computeDiff_def newMap_def mapHas_def keyOf_def idOf_def isObject_def locate_def)

section \<open>Manual triggers\<close>

text \<open>
  Claim C9. On a manual trigger \<open>shouldCheckModels\<close> is true for every site, and
  \<open>shouldCheckIn\<close> is true exactly when the site is of the variant with check-in
  (\<^verbatim>\<open>veloera\<close>) and has check-in enabled, whatever its \<open>checkInMode\<close> is.
\<close>

theorem manual_trigger:
  "shouldCheckModels s True
   \<and> shouldCheckIn s True = (apiType s = Some ''veloera'' \<and> enableCheckIn s)
   \<and> shouldCheckIn (s\<lparr>checkInMode := m\<rparr>) True = shouldCheckIn s True"
  by (simp add: shouldCheckModels_def shouldCheckIn_def)

theorem manual_trigger_witness:
  "shouldCheckModels (site0\<lparr>apiType := Some ''veloera'', enableCheckIn := True,
       checkInMode := Some ''model''\<rparr>) True
   \<and> shouldCheckIn (site0\<lparr>apiType := Some ''veloera'', enableCheckIn := True,
       checkInMode := Some ''model''\<rparr>) True
   \<and> \<not> shouldCheckIn (site0\<lparr>apiType := Some ''newapi'', enableCheckIn := True,
       checkInMode := Some ''checkin''\<rparr>) True"
  using manual_trigger [of "site0\<lparr>apiType := Some ''veloera'', enableCheckIn := True,
       checkInMode := Some ''model''\<rparr>"]
    manual_trigger [of "site0\<lparr>apiType := Some ''newapi'', enableCheckIn := True,
       checkInMode := Some ''checkin''\<rparr>"]
  by (simp add: site0_def)

section \<open>The secrets codec\<close>

subsection \<open>Base64 decoding undoes encoding\<close>

lemma indexOf_nth: "distinct xs \<Longrightarrow> i < length xs \<Longrightarrow> indexOf (xs ! i) xs = Some i"
proof (induction xs arbitrary: i)
  case Nil
  then show ?case by simp
next
  case (Cons x xs)
  show ?case
  proof (cases i)
    case 0
    then show ?thesis by simp
  next
    case (Suc j)
    with Cons.prems have "xs ! j \<in> set xs" "x \<notin> set xs" by auto
    then have "xs ! j \<noteq> x" by auto
    with Cons Suc show ?thesis by auto
  qed
qed

lemma b64chars_distinct: "distinct b64chars"
  by (simp add: b64chars_def)

lemma b64chars_length: "length b64chars = 64"
  by (simp add: b64chars_def)

lemma b64char_in: "i < 64 \<Longrightarrow> b64char i \<in> set b64chars"
  by (simp add: b64char_def b64chars_length)

lemma b64char_plain:
  assumes "i < 64"
  shows "b64char i \<noteq> CHR ''=''" "b64char i \<noteq> CHR '':''" "b64char i \<noteq> CHR ''-''" "b64char i \<noteq> CHR ''_''"
  using b64char_in [OF assms] by (auto simp: b64chars_def)

lemma b64idx_char: "i < 64 \<Longrightarrow> b64idx (b64char i) = Some i"
  using b64char_plain [of i] indexOf_nth [OF b64chars_distinct, of i]
  by (simp add: b64idx_def b64char_def b64chars_length)

lemma sextets_chars:
  assumes "\<forall>i \<in> set is. i < 64"
  shows "b64sextets (map b64char is @ s) = is @ b64sextets s"
  using assms
proof (induction "is")
  case Nil
  show ?case by simp
next
  case (Cons i "is")
  then have "i < 64" by simp
  from b64char_plain(1) [OF this] b64idx_char [OF this] Cons show ?case
    by (simp add: b64sextets_def List.map_filter_simps)
qed

lemma recombine:
  fixes n :: nat
  shows "n div 262144 * 262144 + n div 4096 mod 64 * 4096 + n div 64 mod 64 * 64 + n mod 64 = n"
proof -
  have 1: "n = n div 64 * 64 + n mod 64" by simp
  have "n div 4096 = n div 64 div 64" "n div 262144 = n div 4096 div 64"
    by (simp_all add: div_mult2_eq [symmetric])
  then have 2: "n div 64 = n div 4096 * 64 + n div 64 mod 64"
    and 3: "n div 4096 = n div 262144 * 64 + n div 4096 mod 64"
    by simp_all
  from 1 2 3 show ?thesis by linarith
qed

lemma top_sextet: "n < 16777216 \<Longrightarrow> n div 262144 < (64::nat)"
  by (simp add: div_less_iff_less_mult)

lemma split3:
  fixes x y z :: nat
  assumes "x < 256" "y < 256" "z < 256"
  shows "(x * 65536 + y * 256 + z) div 65536 = x"
    and "(x * 65536 + y * 256 + z) div 256 mod 256 = y"
    and "(x * 65536 + y * 256 + z) mod 256 = z"
    and "x * 65536 + y * 256 + z < 16777216"
proof -
  from assms show "(x * 65536 + y * 256 + z) div 65536 = x"
    by (intro div_nat_eqI) simp_all
  have "(x * 65536 + y * 256 + z) div 256 = x * 256 + y"
    using assms by (intro div_nat_eqI) simp_all
  then show "(x * 65536 + y * 256 + z) div 256 mod 256 = y"
    using assms by simp
  have "x * 65536 + y * 256 + z = (x * 256 + y) * 256 + z" by simp
  then show "(x * 65536 + y * 256 + z) mod 256 = z"
    using assms by (simp only: mod_mult_self3) simp
  from assms show "x * 65536 + y * 256 + z < 16777216" by simp
qed

lemma low_sextet_two_bytes: "(x * 65536 + y * 256) mod 64 = (0::nat)"
proof -
  have "x * 65536 + y * 256 = (x * 1024 + y * 4) * 64" by simp
  then show ?thesis by (simp only: mod_mult_self2_is_0)
qed

lemma low_sextets_one_byte: "(x * 65536) mod 64 = (0::nat)" "(x * 65536) div 64 mod 64 = (0::nat)"
proof -
  have a: "x * 65536 = (x * 1024) * 64" by simp
  show "(x * 65536) mod 64 = 0" by (simp only: a mod_mult_self2_is_0)
  have b: "x * 65536 div 64 = x * 16 * 64" by simp
  show "(x * 65536) div 64 mod 64 = 0" by (simp only: b mod_mult_self2_is_0)
qed

lemma byte_bound: "unat (a :: byte) < 256"
  using unsigned_less [of a] by simp

lemma b64_group3:
  fixes a b c :: byte
  assumes n: "n = unat a * 65536 + unat b * 256 + unat c"
  shows "sextetsToBytes (n div 262144 # n div 4096 mod 64 # n div 64 mod 64 # n mod 64 # rest)
         = a # b # c # sextetsToBytes rest"
proof -
  have "of_nat (n div 65536) = a" "of_nat (n div 256 mod 256) = b" "of_nat (n mod 256) = c"
    unfolding n using split3(1-3) [OF byte_bound byte_bound byte_bound, of a b c] by simp_all
  then show ?thesis
    by (simp add: recombine)
qed

lemma b64_group2:
  fixes a b :: byte
  assumes n: "n = unat a * 65536 + unat b * 256"
  shows "sextetsToBytes [n div 262144, n div 4096 mod 64, n div 64 mod 64] = [a, b]"
proof -
  have z: "n mod 64 = 0" unfolding n by (rule low_sextet_two_bytes)
  have "of_nat (n div 65536) = a" "of_nat (n div 256 mod 256) = b"
    unfolding n using split3(1-2) [OF byte_bound byte_bound, of 0 a b] by simp_all
  moreover have "n div 262144 * 262144 + n div 4096 mod 64 * 4096 + n div 64 mod 64 * 64 = n"
    using recombine [of n] z by simp
  ultimately show ?thesis by simp
qed

lemma b64_group1:
  fixes a :: byte
  assumes n: "n = unat a * 65536"
  shows "sextetsToBytes [n div 262144, n div 4096 mod 64] = [a]"
proof -
  have z: "n mod 64 = 0" "n div 64 mod 64 = 0" unfolding n by (rule low_sextets_one_byte)+
  have "of_nat (n div 65536) = a"
    unfolding n by simp
  moreover have "n div 262144 * 262144 + n div 4096 mod 64 * 4096 = n"
    using recombine [of n] z by simp
  ultimately show ?thesis by simp
qed

lemma b64sextets_pad: "b64sextets (CHR ''='' # s) = []"
  by (simp add: b64sextets_def List.map_filter_simps)

lemma b64sextets_Nil: "b64sextets [] = []"
  by (simp add: b64sextets_def List.map_filter_simps)

lemma b64_roundtrip: "b64dec (b64enc bs) = bs"
proof (induction bs rule: b64enc.induct)
  case 1
  show ?case by (simp add: b64dec_def b64sextets_Nil)
next
  case (2 a)
  define n where "n = unat a * 65536"
  have lt: "n < 16777216" unfolding n_def using byte_bound [of a] by simp
  have "b64enc [a] = map b64char [n div 262144, n div 4096 mod 64] @ ''==''"
    by (simp add: n_def Let_def)
  then have "b64sextets (b64enc [a]) = [n div 262144, n div 4096 mod 64]"
    using sextets_chars [of "[n div 262144, n div 4096 mod 64]" "''==''"] top_sextet [OF lt]
    by (simp add: b64sextets_pad)
  then show ?case unfolding b64dec_def using b64_group1 [OF n_def] by (simp only:)
next
  case (3 a b)
  define n where "n = unat a * 65536 + unat b * 256"
  have lt: "n < 16777216" unfolding n_def using byte_bound [of a] byte_bound [of b] by simp
  have "b64enc [a, b] = map b64char [n div 262144, n div 4096 mod 64, n div 64 mod 64] @ ''=''"
    by (simp add: n_def Let_def)
  then have "b64sextets (b64enc [a, b]) = [n div 262144, n div 4096 mod 64, n div 64 mod 64]"
    using sextets_chars [of "[n div 262144, n div 4096 mod 64, n div 64 mod 64]" "''=''"]
      top_sextet [OF lt]
    by (simp add: b64sextets_pad)
  then show ?case unfolding b64dec_def using b64_group2 [OF n_def] by (simp only:)
next
  case (4 a b c rest)
  define n where "n = unat a * 65536 + unat b * 256 + unat c"
  have lt: "n < 16777216" unfolding n_def using split3(4) [OF byte_bound byte_bound byte_bound] .
  have "b64enc (a # b # c # rest)
      = map b64char [n div 262144, n div 4096 mod 64, n div 64 mod 64, n mod 64] @ b64enc rest"
    by (simp add: n_def Let_def)
  then have "b64sextets (b64enc (a # b # c # rest))
      = [n div 262144, n div 4096 mod 64, n div 64 mod 64, n mod 64] @ b64sextets (b64enc rest)"
    using sextets_chars [of "[n div 262144, n div 4096 mod 64, n div 64 mod 64, n mod 64]" "b64enc rest"]
      top_sextet [OF lt]
    by simp
  then have "b64dec (b64enc (a # b # c # rest)) = a # b # c # b64dec (b64enc rest)"
    unfolding b64dec_def using b64_group3 [OF n_def] by (simp only: append_Cons append_Nil)
  with 4 show ?case by simp
qed

lemma b64enc_no_colon: "CHR '':'' \<notin> set (b64enc bs)"
proof (induction bs rule: b64enc.induct)
  case (4 a b c rest)
  define n where "n = unat a * 65536 + unat b * 256 + unat c"
  have lt: "n < 16777216" unfolding n_def using split3(4) [OF byte_bound byte_bound byte_bound] .
  show ?case
    using 4 b64char_plain(2) [of "n div 262144"] b64char_plain(2) [of "n div 4096 mod 64"]
      b64char_plain(2) [of "n div 64 mod 64"] b64char_plain(2) [of "n mod 64"] top_sextet [OF lt]
    by (simp add: Let_def n_def [symmetric])
next
  case (3 a b)
  define n where "n = unat a * 65536 + unat b * 256"
  have lt: "n < 16777216" unfolding n_def using byte_bound [of a] byte_bound [of b] by simp
  show ?case
    using b64char_plain(2) [of "n div 262144"] b64char_plain(2) [of "n div 4096 mod 64"]
      b64char_plain(2) [of "n div 64 mod 64"] top_sextet [OF lt]
    by (simp add: Let_def n_def [symmetric])
next
  case (2 a)
  define n where "n = unat a * 65536"
  have lt: "n < 16777216" unfolding n_def using byte_bound [of a] by simp
  show ?case
    using b64char_plain(2) [of "n div 262144"] b64char_plain(2) [of "n div 4096 mod 64"]
      top_sextet [OF lt]
    by (simp add: Let_def n_def [symmetric])
qed simp


subsection \<open>Envelopes\<close>

lemma splitOn_plain: "c \<notin> set s \<Longrightarrow> splitOn c s = [s]"
  by (induction s) auto

lemma splitOn_envelope:
  "CHR '':'' \<notin> set d \<Longrightarrow> splitOn CHR '':'' (''v1:'' @ d) = [''v1'', d]"
  by (simp add: splitOn_plain)

lemma splitOn_not_Nil: "splitOn c s \<noteq> []"
  by (induction s) (auto split: list.splits)

lemma splitOn_hd: "hd (splitOn c s) = takeWhile (\<lambda>x. x \<noteq> c) s"
  using splitOn_not_Nil [of c] by (induction s) (auto split: list.splits)

lemma flipped_byte: "k < 8 \<Longrightarrow> (x :: byte) XOR push_bit k 1 \<noteq> x"
proof
  assume k: "k < 8" and "x XOR push_bit k 1 = x"
  then have "x XOR (x XOR push_bit k 1) = x XOR x" by simp
  then have "(push_bit k 1 :: byte) = 0"
    by (simp add: xor.assoc [symmetric])
  with k show False by (simp add: push_bit_eq_mult)
qed

lemma flipBit_changes:
  assumes "n < 8 * length bs"
  shows "flipBit n bs \<noteq> bs" "length (flipBit n bs) = length bs"
proof -
  from assms have i: "n div 8 < length bs" by (simp add: div_less_iff_less_mult mult.commute)
  have "flipBit n bs ! (n div 8) \<noteq> bs ! (n div 8)"
    using i flipped_byte [of "n mod 8" "bs ! (n div 8)"] by (simp add: flipBit_def)
  then show "flipBit n bs \<noteq> bs" by auto
  show "length (flipBit n bs) = length bs" by (simp add: flipBit_def)
qed

lemma flipTagBit_encrypt:
  assumes iv: "length iv = 12"
    and tag16: "length (ghash_tag G KEY iv (ctr G KEY iv (utf8_bytes pt))) = 16"
  shows "flipTagBit n (encrypt G KEY iv pt) =
    ''v1:'' @ b64enc (iv @ flipBit n (ghash_tag G KEY iv (ctr G KEY iv (utf8_bytes pt)))
                @ ctr G KEY iv (utf8_bytes pt))"
  using iv tag16
  by (simp add: flipTagBit_def encrypt_def Let_def splitOn_plain b64enc_no_colon b64_roundtrip)

lemma decrypt_v1:
  assumes "CHR '':'' \<notin> set d"
  shows "decrypt G KEY (Some (''v1:'' @ d)) =
     (let buf = b64dec d; iv = take 12 buf; tag = take 16 (drop 12 buf); ct = drop 28 buf
      in if length KEY \<noteq> 32 then Inl (Exn ''Invalid key length'')
         else if iv = [] then Inl (Exn ''Invalid initialization vector'')
         else if length tag \<notin> {4, 8, 12, 13, 14, 15, 16}
           then Inl (Exn ''Invalid authentication tag length'')
         else if tag \<noteq> take (length tag) (ghash_tag G KEY iv ct)
           then Inl (Exn ''Unsupported state or unable to authenticate data'')
         else Inr (bytes_utf8 (ctr G KEY iv ct)))"
proof -
  have "splitOn CHR '':'' (''v1:'' @ d) = [''v1'', d]"
    using assms by (rule splitOn_envelope)
  then show ?thesis
    unfolding decrypt_def by (simp only: option.case list.case) simp
qed

lemma decrypt_envelope:
  assumes "length KEY = 32" "length iv = 12" "length tag = 16"
  shows "decrypt G KEY (Some (''v1:'' @ b64enc (iv @ tag @ ct))) =
     (if tag = take 16 (ghash_tag G KEY iv ct) then Inr (bytes_utf8 (ctr G KEY iv ct))
      else Inl (Exn ''Unsupported state or unable to authenticate data''))"
proof -
  have parts: "take 12 (iv @ tag @ ct) = iv" "take 16 (drop 12 (iv @ tag @ ct)) = tag"
    "drop 28 (iv @ tag @ ct) = ct"
    using assms by simp_all
  have "iv \<noteq> []" using assms by auto
  then show ?thesis
    unfolding decrypt_v1 [OF b64enc_no_colon] b64_roundtrip Let_def parts
    using assms by simp
qed

lemma utf8_roundtrip: "bytes_utf8 (utf8_bytes s) = s"
proof -
  have "char_of (unat (of_nat (of_char c) :: byte)) = c" for c :: char
  proof -
    have "of_char c < (256 :: nat)" by simp
    then have "unat (of_nat (of_char c) :: byte) = of_char c"
      by (simp add: unat_of_nat)
    then show ?thesis by simp
  qed
  then show ?thesis by (simp add: bytes_utf8_def utf8_bytes_def comp_def)
qed

lemma decrypt_bad_version:
  assumes "p \<noteq> []" "takeWhile (\<lambda>c. c \<noteq> CHR '':'') p \<noteq> ''v1''"
  shows "decrypt G KEY (Some p) = Inl (Exn ''Unsupported enc version'')"
proof (cases "splitOn CHR '':'' p")
  case Nil
  then show ?thesis using splitOn_not_Nil [of "CHR '':''" p] by simp
next
  case (Cons ver rest)
  then have "ver = takeWhile (\<lambda>c. c \<noteq> CHR '':'') p"
    using splitOn_hd [of "CHR '':''" p] by simp
  with assms Cons show ?thesis by (simp add: decrypt_def)
qed

lemma decrypt_v1_alone: "decrypt G KEY (Some ''v1'') = Inl (Exn ''The first argument must be of type string'')"
  by (simp add: decrypt_def)

lemma version_prefix:
  assumes "takeWhile (\<lambda>c. c \<noteq> CHR '':'') p = ''v1''"
  shows "p = ''v1'' \<or> (\<exists>d. p = ''v1:'' @ d)"
proof (cases "dropWhile (\<lambda>c. c \<noteq> CHR '':'') p")
  case Nil
  then have "p = takeWhile (\<lambda>c. c \<noteq> CHR '':'') p"
    using takeWhile_dropWhile_id [of "\<lambda>c. c \<noteq> CHR '':''" p] by (simp only: append_Nil2)
  with assms show ?thesis by simp
next
  case (Cons x xs)
  then have "x = CHR '':''" using hd_dropWhile [of "\<lambda>c. c \<noteq> CHR '':''" p] by auto
  with Cons assms have "p = ''v1'' @ CHR '':'' # xs"
    using takeWhile_dropWhile_id [of "\<lambda>c. c \<noteq> CHR '':''" p] by simp
  then show ?thesis by simp
qed

lemma decrypt_malformed:
  assumes "p \<noteq> []" "\<not> (\<exists>d. p = ''v1:'' @ d)"
  shows "\<exists>e. decrypt G KEY (Some p) = Inl e"
proof (cases "takeWhile (\<lambda>c. c \<noteq> CHR '':'') p = ''v1''")
  case True
  with version_prefix assms have "p = ''v1''" by blast
  then show ?thesis by (simp add: decrypt_v1_alone)
next
  case False
  with assms show ?thesis by (simp add: decrypt_bad_version)
qed

lemma decrypt_encrypt:
  assumes "length KEY = 32" "length iv = 12"
    and "length (ghash_tag G KEY iv (ctr G KEY iv (utf8_bytes pt))) = 16"
    and "ctr G KEY iv (ctr G KEY iv (utf8_bytes pt)) = utf8_bytes pt"
  shows "decrypt G KEY (Some (encrypt G KEY iv pt)) = Inr pt"
  using assms decrypt_envelope [OF assms(1-3)]
  by (simp add: encrypt_def Let_def utf8_roundtrip)

text \<open>
  Claim C7, as the code has it. Let the key have 32 bytes, the nonce 12 and the tag 16.
  For every envelope \<open>encrypt\<close> produces, \<open>decrypt\<close> of the envelope with any one of
  the 128 bits of its authentication tag flipped throws (the decipher's authentication
  error) and returns no plaintext. Every envelope other than the empty string that does
  not start with the version prefix \<^verbatim>\<open>v1:\<close> makes \<open>decrypt\<close> throw, with the message
  \<^verbatim>\<open>Unsupported enc version\<close> whenever its first segment is not \<^verbatim>\<open>v1\<close>. (The empty
  string is the exception: see claim C10.)
\<close>

theorem decrypt_fails_closed:
  assumes "length KEY = 32" "length iv = 12"
    and "length (ghash_tag G KEY iv (ctr G KEY iv (utf8_bytes pt))) = 16"
  shows "(\<forall>n < 128. decrypt G KEY (Some (flipTagBit n (encrypt G KEY iv pt)))
            = Inl (Exn ''Unsupported state or unable to authenticate data''))
    \<and> (\<forall>p. p \<noteq> [] \<and> \<not> (\<exists>d. p = ''v1:'' @ d) \<longrightarrow> (\<exists>e. decrypt G KEY (Some p) = Inl e))
    \<and> (\<forall>p. p \<noteq> [] \<and> takeWhile (\<lambda>c. c \<noteq> CHR '':'') p \<noteq> ''v1''
            \<longrightarrow> decrypt G KEY (Some p) = Inl (Exn ''Unsupported enc version''))"
proof (intro conjI allI impI)
  fix n :: nat
  assume n: "n < 128"
  let ?ct = "ctr G KEY iv (utf8_bytes pt)"
  let ?tag = "ghash_tag G KEY iv ?ct"
  from n assms(3) have "n < 8 * length ?tag" by simp
  from flipBit_changes [OF this] assms(3)
  have ne: "flipBit n ?tag \<noteq> ?tag" and len: "length (flipBit n ?tag) = 16" by simp_all
  have "take 16 ?tag = ?tag" using assms(3) by simp
  with ne have "flipBit n ?tag \<noteq> take 16 ?tag" by simp
  then show "decrypt G KEY (Some (flipTagBit n (encrypt G KEY iv pt)))
      = Inl (Exn ''Unsupported state or unable to authenticate data'')"
    unfolding flipTagBit_encrypt [OF assms(2,3)] decrypt_envelope [OF assms(1,2) len]
    by simp
next
  fix p :: string
  assume "p \<noteq> [] \<and> \<not> (\<exists>d. p = ''v1:'' @ d)"
  then show "\<exists>e. decrypt G KEY (Some p) = Inl e"
    using decrypt_malformed by blast
next
  fix p :: string
  assume "p \<noteq> [] \<and> takeWhile (\<lambda>c. c \<noteq> CHR '':'') p \<noteq> ''v1''"
  then show "decrypt G KEY (Some p) = Inl (Exn ''Unsupported enc version'')"
    using decrypt_bad_version by blast
qed

lemma toy_facts:
  "length key0 = 32" "length iv0 = 12"
  "length (ghash_tag toyGcm key0 iv0 (ctr toyGcm key0 iv0 (utf8_bytes pt))) = 16"
  "ctr toyGcm key0 iv0 (ctr toyGcm key0 iv0 bs) = bs"
  by (simp_all add: key0_def iv0_def toyGcm_def comp_def xor.assoc)

text \<open>
  With the stand-in cipher: an envelope decrypts to its plaintext, a flipped first or
  last tag bit is refused, and so are a wrong version and a string without any prefix.
\<close>

theorem decrypt_fails_closed_witness:
  "decrypt toyGcm key0 (Some (encrypt toyGcm key0 iv0 ''sk-test'')) = Inr ''sk-test''
   \<and> decrypt toyGcm key0 (Some (flipTagBit 0 (encrypt toyGcm key0 iv0 ''sk-test'')))
       = Inl (Exn ''Unsupported state or unable to authenticate data'')
   \<and> decrypt toyGcm key0 (Some (flipTagBit 127 (encrypt toyGcm key0 iv0 ''sk-test'')))
       = Inl (Exn ''Unsupported state or unable to authenticate data'')
   \<and> decrypt toyGcm key0 (Some ''v2:AAAA'') = Inl (Exn ''Unsupported enc version'')
   \<and> decrypt toyGcm key0 (Some ''sk-plain'') = Inl (Exn ''Unsupported enc version'')"
proof -
  note t = decrypt_fails_closed [OF toy_facts(1-3), of "''sk-test''"]
  have "decrypt toyGcm key0 (Some (encrypt toyGcm key0 iv0 ''sk-test'')) = Inr ''sk-test''"
    by (rule decrypt_encrypt [OF toy_facts(1-3) toy_facts(4)])
  moreover have "decrypt toyGcm key0 (Some ''v2:AAAA'') = Inl (Exn ''Unsupported enc version'')"
    "decrypt toyGcm key0 (Some ''sk-plain'') = Inl (Exn ''Unsupported enc version'')"
    using t by simp_all
  ultimately show ?thesis using t by simp
qed

text \<open>
  Claim C7 as stated fails on the empty string: it has no version prefix, and
  \<open>decrypt\<close> returns a plaintext for it instead of throwing.
\<close>

theorem decrypt_empty_envelope_counterexample:
  "\<not> (\<exists>d. [] = ''v1:'' @ d) \<and> decrypt toyGcm key0 (Some []) = Inr []"
  by (simp add: decrypt_def)

text \<open>
  Claim C10. For a falsy envelope (\<^verbatim>\<open>null\<close> or \<^verbatim>\<open>undefined\<close>, here \<open>None\<close>, and
  the empty string) \<open>decrypt\<close> returns the empty string and throws nothing, whatever
  the cipher and the key are.
\<close>

theorem decrypt_falsy:
  "decrypt G KEY None = Inr [] \<and> decrypt G KEY (Some []) = Inr []"
  by (simp add: decrypt_def)

theorem decrypt_falsy_witness:
  "decrypt toyGcm key0 None = Inr [] \<and> decrypt toyGcm key0 (Some []) = Inr []"
  using decrypt_falsy [of toyGcm key0] by simp

section \<open>The hash of the model list\<close>

subsection \<open>The digest\<close>

text \<open>The test vector of FIPS 180-4 for the message \<^verbatim>\<open>abc\<close>, and the length of a digest.\<close>

lemma sha256hex_abc:
  "sha256hex ''abc'' = ''ba7816bf8f01cfea414140de5dae2223b00361a396177a9cb410ff61f20015ad''"
  by code_simp

lemma sha256hex_length: "length (sha256hex text) = 64"
  by (simp add: sha256hex_def hex32_def split: prod.splits)

lemma hashModels_not_empty: "hashModels L ms \<noteq> []"
  using sha256hex_length [of "stringify L (JArr ms)"] by (auto simp: hashModels_def)

subsection \<open>The same models in two upstream orders\<close>

text \<open>
  The OpenAI-compatible fetch sorts: two listings of the same two models, in either
  order, give the same list.
\<close>

lemma openai_sorted:
  "fetchedHash (fetchModels lib0 (openaiListing [modelA, modelB]))
     = Some (hashModels lib0
         [JObj [(''id'', JStr ''a''), (''object'', JStr ''model''), (''owned_by'', JStr ''x''),
                (''permission'', JUndefined), (''created'', JNum 1), (''root'', JUndefined),
                (''parent'', JUndefined)],
          JObj [(''id'', JStr ''b''), (''object'', JStr ''model''), (''owned_by'', JStr ''x''),
                (''permission'', JUndefined), (''created'', JNum 1), (''root'', JUndefined),
                (''parent'', JUndefined)]])"
  "fetchedHash (fetchModels lib0 (openaiListing [modelB, modelA]))
     = Some (hashModels lib0
         [JObj [(''id'', JStr ''a''), (''object'', JStr ''model''), (''owned_by'', JStr ''x''),
                (''permission'', JUndefined), (''created'', JNum 1), (''root'', JUndefined),
                (''parent'', JUndefined)],
          JObj [(''id'', JStr ''b''), (''object'', JStr ''model''), (''owned_by'', JStr ''x''),
                (''permission'', JUndefined), (''created'', JNum 1), (''root'', JUndefined),
                (''parent'', JUndefined)]])"
  by (simp_all add: fetchedHash_def fetchModels_def openaiListing_def world0_def respondJson_def
      ok_def normalizeModels_def responseArray_def created_def sortStable_def cmpModels_def
      sortKey_def jsor_def lib0_def modelA_def modelB_def hasKey_def)


text \<open>The newapi fetch keeps the upstream order, and the digest follows it.\<close>

lemma hash_ab:
  "fetchedHash (fetchModelsNewapi (listing [modelA, modelB]) ''newapi'')
     = Some ''8fa55d9812afcf1cd3d462ef70e717d92c74a1a9725af7ba42074e2e76a5ec6c''"
  by code_simp

lemma hash_ba:
  "fetchedHash (fetchModelsNewapi (listing [modelB, modelA]) ''newapi'')
     = Some ''f5c26ed09351644ce09b792a8a29189c42f736862a6d7be2236a17b4e5fa0b11''"
  by code_simp

text \<open>
  Claim C3 does not hold of the code. The claim: for every model list and every
  permutation of it, the hash the check pipeline computes is the same, on the output
  of every fetch variant. Only \<open>fetchModels\<close> sorts (in \<open>normalizeModels\<close>);
  \<open>fetchModelsNewapi\<close> and \<open>fetchModelsDonehub\<close> make the same entries and leave them
  in the order the upstream sent them. Here the upstream of a newapi site lists the same
  two models once as a, b and once as b, a, at the same clock readings: the two hashes
  the check computes are different digests, while the OpenAI-compatible fetch gives one
  and the same hash for both orders.
\<close>

theorem upstream_order_changes_hash_counterexample:
  "mset [modelA, modelB] = mset [modelB, modelA]
   \<and> fetchedHash (fetchModelsNewapi (listing [modelA, modelB]) ''newapi'')
       = Some ''8fa55d9812afcf1cd3d462ef70e717d92c74a1a9725af7ba42074e2e76a5ec6c''
   \<and> fetchedHash (fetchModelsNewapi (listing [modelB, modelA]) ''newapi'')
       = Some ''f5c26ed09351644ce09b792a8a29189c42f736862a6d7be2236a17b4e5fa0b11''
   \<and> fetchedHash (fetchModelsNewapi (listing [modelA, modelB]) ''newapi'')
       \<noteq> fetchedHash (fetchModelsNewapi (listing [modelB, modelA]) ''newapi'')
   \<and> fetchedHash (fetchModels lib0 (openaiListing [modelA, modelB]))
       = fetchedHash (fetchModels lib0 (openaiListing [modelB, modelA]))
   \<and> fetchedHash (fetchModels lib0 (openaiListing [modelA, modelB])) \<noteq> None"
  unfolding hash_ab hash_ba openai_sorted by simp

section \<open>Billing of a newapi site\<close>





section \<open>What a check reads and writes\<close>


lemma newest_in:
  "foldl (\<lambda>best s. case best of None \<Rightarrow> Some s
        | Some b \<Rightarrow> if fetchedAt b < fetchedAt s then Some s else best) None xs = Some y
   \<Longrightarrow> y \<in> set xs"
proof (induction xs arbitrary: y rule: rev_induct)
  case Nil
  then show ?case by simp
next
  case (snoc x xs)
  then show ?case by (auto split: option.splits if_splits)
qed


lemma findLastSnap_in:
  "findLastSnap st sid = Some y
   \<Longrightarrow> y \<in> set (snapshots st) \<and> siteId y = sid \<and> errorMessage y = None"
  unfolding findLastSnap_def by (drule newest_in) simp

lemma findLastSnap_skip:
  assumes "siteId row \<noteq> sid \<or> errorMessage row \<noteq> None"
  shows "findLastSnap (touchSite s t (createSnapshot row st)) sid = findLastSnap st sid"
  using assms by (auto simp: findLastSnap_def touchSite_def createSnapshot_def)

lemma findLastSnap_newest:
  assumes "\<forall>x \<in> set (snapshots st). siteId x = sid \<and> errorMessage x = None
             \<longrightarrow> fetchedAt x < fetchedAt row"
    and "siteId row = sid" "errorMessage row = None"
  shows "findLastSnap (touchSite s t (createSnapshot row st)) sid = Some row"
proof (cases "findLastSnap st sid")
  case None
  then show ?thesis
    using assms(2,3) by (simp add: findLastSnap_def touchSite_def createSnapshot_def)
next
  case (Some b)
  from findLastSnap_in [OF Some] assms(1) have "fetchedAt b < fetchedAt row" by blast
  with Some show ?thesis
    using assms(2,3) by (simp add: findLastSnap_def touchSite_def createSnapshot_def)
qed

section \<open>The ways through a check\<close>


lemma checkSite_checkin_only:
  assumes "decryptR R (apiKeyEnc s) = Inr k" "\<not> shouldCheckModels s (isManual opts)"
  shows "checkSite R W s opts st =
     (Inr \<lparr> r_ok = True, hasChanges = False, r_diff = None, r_siteName = name s,
             checkInOnly = Some True, checkInChanged = None,
             r_checkInResult = Some (checkInStep R W s (shouldCheckIn s (isManual opts))) \<rparr>,
      touchSite s (nowMs W)
        (createSnapshot
           (checkInOnlyRow st s (nowMs W) (checkInStep R W s (shouldCheckIn s (isManual opts))))
           st))"
  using assms by (simp add: checkSite_def Let_def)



lemma checkSite_fetched:
  assumes "decryptR R (apiKeyEnc s) = Inr k" "shouldCheckModels s (isManual opts)"
    and "billingPromises R W s = Inr plan" "tryFetch R W s plan = Inr (fr, b)"
  shows "checkSite R W s opts st =
     recordCheck R W s opts (shouldCheckIn s (isManual opts))
       (checkInStep R W s (shouldCheckIn s (isManual opts))) fr b st"
  using assms by (simp add: checkSite_def Let_def)




section \<open>Diffs against an empty list, and the mail settings\<close>

lemma mailSetup_updates:
  "mailSetup R (st \<lparr> snapshots := a \<rparr>) = mailSetup R st"
  "mailSetup R (st \<lparr> modelDiffs := b \<rparr>) = mailSetup R st"
  "mailSetup R (st \<lparr> siteUpdates := c \<rparr>) = mailSetup R st"
  "mailSetup R (st \<lparr> sent := d \<rparr>) = mailSetup R st"
  "mailSetup R (st \<lparr> scheduleLastRun := e \<rparr>) = mailSetup R st"
  by (simp_all add: mailSetup_def)

lemma locate_entries: "map entry (locate base xs) = xs"
  by (simp add: locate_def comp_def case_prod_unfold map_snd_enumerate)

lemma locate_empty: "(locate base xs = []) = (xs = [])"
  by (cases xs) (simp_all add: locate_def)

lemma locate_Nil: "locate base [] = []"
  by (simp add: locate_def)

lemma keyedDiff_Nil_right: "keyedDiff A [] = []"
  by (simp add: keyedDiff_def newMap_Nil)

lemma keyedDiff_Nil_keys: "set (map keyOf (keyedDiff [] B)) = keyOf ` set B"
  by (simp add: keyedDiff_keys)

lemma keyedDiff_Nil_empty: "(keyedDiff [] B = []) = (B = [])"
proof
  assume "keyedDiff [] B = []"
  then have "keyOf ` set B = {}" using keyedDiff_Nil_keys [of B] by simp
  then show "B = []" by simp
next
  assume "B = []"
  then show "keyedDiff [] B = []" by (simp add: keyedDiff_Nil_right)
qed

lemma computeDiff_from_empty:
  assumes "\<forall>m \<in> set ms. \<not> nullish m"
  shows "computeDiff (locate 0 []) (locate (length []) ms)
           = Inr \<lparr> added = keyedDiff [] (locate 0 ms), removed = [], changed = [] \<rparr>"
proof -
  have "\<forall>h \<in> set ([] @ locate 0 ms). \<not> nullish (entry h)"
    using assms locate_entries [of 0 ms] by (metis append_Nil image_eqI list.set_map)
  from computeDiff_keyed [OF this] show ?thesis
    by (simp add: locate_Nil keyedDiff_Nil_right)
qed

lemma jsonClone_empty: "jsonClone (JArr []) = JArr []"
  by simp

text \<open>A check whose baseline holds the empty list: every fetched model is new.\<close>

lemma recordCheck_empty_baseline:
  assumes "findLastSnap st (id_site s) = Some l" "hash l \<noteq> hashModels (lib R) (models fr)"
    and "modelsJson l = JArr []"
    and "models fr \<noteq> []" "\<forall>m \<in> set (models fr). \<not> nullish m"
  shows "recordCheck R W s opts n v fr b st =
     (Inr \<lparr> r_ok = True, hasChanges = True,
             r_diff = Some \<lparr> added = keyedDiff [] (locate 0 (models fr)), removed = [],
                             changed = [] \<rparr>,
             r_siteName = name s, checkInOnly = None,
             checkInChanged = Some (checkInChange n (Some l) v),
             r_checkInResult = (if n \<and> v_success v \<noteq> None then Some v else None) \<rparr>,
      touchSite s (nowMs W)
        ((if skipNotification opts then (\<lambda>x. x)
          else sendModelChangeNotification R (name s)
                 \<lparr> added = keyedDiff [] (locate 0 (models fr)), removed = [], changed = [] \<rparr>)
           ((createSnapshot (successRow R st s (nowMs W) fr b v) st)
              \<lparr> modelDiffs := modelDiffs st @
                   [\<lparr> md_siteId = id_site s, diffAt = nowMs W,
                      addedJson = jsonClone (JArr (map entry (keyedDiff [] (locate 0 (models fr))))),
                      removedJson = JArr [], changedJson = JArr [],
                      snapshotFromId = id_snap l,
                      snapshotToId = length (snapshots st) \<rparr>] \<rparr>)))"
proof -
  note h = assms(2)
  have d: "computeDiff (locate 0 []) (locate (length []) (models fr))
           = Inr \<lparr> added = keyedDiff [] (locate 0 (models fr)), removed = [], changed = [] \<rparr>"
    by (rule computeDiff_from_empty [OF assms(5)])
  have ne: "keyedDiff [] (locate 0 (models fr)) \<noteq> []"
    using assms(4) by (simp add: keyedDiff_Nil_empty locate_empty)
  show ?thesis
    using assms(1,3) h ne d
    by (simp add: recordCheck_def Let_def createSnapshot_def successRow_def)
qed

section \<open>The first successful check\<close>


text \<open>A first scheduled check of an OpenAI-compatible site, with mail enabled.\<close>

lemma decryptR_None: "decryptR R None = Inr []"
  by (simp add: decryptR_def decrypt_def)




section \<open>The snapshot of a check-in-only run\<close>

text \<open>
  Claim C1 does not hold of the code. The first half of the claim does: a scheduled run
  of a site whose mode is check-in only fetches no models and no billing and writes one
  snapshot with the empty model list, the empty hash and the check-in outcome; no diff
  row is written and no mail is sent. But the snapshot has no error message, and the
  lookup of the comparison baseline takes the newest snapshot without an error message:
  while it is the newest, the next check that fetches models (here a manual check,
  which always does) compares against it. The empty hash differs from every digest, so
  the diff is taken against the empty list: every fetched model is reported as added, a
  \<open>ModelDiff\<close> row is written from the check-in snapshot, and the notification goes
  out.
\<close>

theorem checkin_only_snapshot_is_baseline:
  assumes "decryptR R (apiKeyEnc s) = Inr k"
    and "\<not> shouldCheckModels s False"
    and "\<forall>x \<in> set (snapshots st). siteId x = id_site s \<and> errorMessage x = None
           \<longrightarrow> fetchedAt x < nowMs W"
    and "checkSite R W s \<lparr> skipNotification = sk, isManual = False \<rparr> st = (res, st1)"
    and "billingPromises R W' s = Inr plan" "tryFetch R W' s plan = Inr (fr, b)"
    and "models fr \<noteq> []" "\<forall>m \<in> set (models fr). \<not> nullish m"
    and "checkSite R W' s \<lparr> skipNotification = False, isManual = True \<rparr> st1 = (res', st2)"
  shows "\<exists>row r' d md.
       snapshots st1 = snapshots st @ [row]
     \<and> modelsJson row = JArr [] \<and> hash row = [] \<and> errorMessage row = None
     \<and> billingLimit row = JNull \<and> billingUsage row = JNull
     \<and> modelDiffs st1 = modelDiffs st \<and> sent st1 = sent st
     \<and> findLastSnap st1 (id_site s) = Some row
     \<and> res' = Inr r' \<and> hasChanges r' \<and> r_diff r' = Some d
     \<and> added d \<noteq> [] \<and> removed d = []
     \<and> keyOf ` set (added d) = keyOf ` set (locate 0 (models fr))
     \<and> modelDiffs st2 = modelDiffs st1 @ [md]
     \<and> snapshotFromId md = id_snap row
     \<and> addedJson md = jsonClone (JArr (map entry (added d)))
     \<and> sent st2 = sent st1 @
           (case mailSetup R st1 of
              None \<Rightarrow> []
            | Some (apiKey, emails) \<Rightarrow>
                [\<lparr> apiKeyUsed = apiKey, recipients = emails, content = SingleSite (name s) d \<rparr>])"
proof -
  let ?v = "checkInStep R W s (shouldCheckIn s False)"
  let ?row = "checkInOnlyRow st s (nowMs W) ?v"
  let ?d = "\<lparr> added = keyedDiff [] (locate 0 (models fr)), removed = [], changed = [] \<rparr>"
  let ?v' = "checkInStep R W' s (shouldCheckIn s True)"
  let ?md = "\<lparr> md_siteId = id_site s, diffAt = nowMs W',
                addedJson = jsonClone (JArr (map entry (keyedDiff [] (locate 0 (models fr))))),
                removedJson = JArr [], changedJson = JArr [],
                snapshotFromId = id_snap ?row,
                snapshotToId = length (snapshots st1) \<rparr>"
  have st1: "st1 = touchSite s (nowMs W) (createSnapshot ?row st)"
    using checkSite_checkin_only [OF assms(1), of "\<lparr> skipNotification = sk, isManual = False \<rparr>" W st]
      assms(2,4) by simp
  have row: "siteId ?row = id_site s" "errorMessage ?row = None" "fetchedAt ?row = nowMs W"
    "hash ?row = []" "modelsJson ?row = JArr []" "billingLimit ?row = JNull"
    "billingUsage ?row = JNull"
    by (simp_all add: checkInOnlyRow_def)
  have last: "findLastSnap st1 (id_site s) = Some ?row"
    unfolding st1 using assms(3) row(1-3) by (intro findLastSnap_newest) auto
  have ne: "keyedDiff [] (locate 0 (models fr)) \<noteq> []"
    using assms(7) by (simp add: keyedDiff_Nil_empty locate_empty)
  have keys: "keyOf ` set (keyedDiff [] (locate 0 (models fr))) = keyOf ` set (locate 0 (models fr))"
    using keyedDiff_Nil_keys [of "locate 0 (models fr)"] by simp
  have differs: "hash ?row \<noteq> hashModels (lib R) (models fr)"
    using row(4) hashModels_not_empty [of "lib R" "models fr"] by simp
  have "checkSite R W' s \<lparr> skipNotification = False, isManual = True \<rparr> st1
          = recordCheck R W' s \<lparr> skipNotification = False, isManual = True \<rparr>
              (shouldCheckIn s True) ?v' fr b st1"
    using checkSite_fetched [OF assms(1) _ assms(5,6), of "\<lparr> skipNotification = False, isManual = True \<rparr>" st1]
    by (simp add: shouldCheckModels_def)
  with assms(9) recordCheck_empty_baseline [OF last differs row(5) assms(7,8)]
  have res': "res' = Inr \<lparr> r_ok = True, hasChanges = True, r_diff = Some ?d,
             r_siteName = name s, checkInOnly = None,
             checkInChanged = Some (checkInChange (shouldCheckIn s True) (Some ?row) ?v'),
             r_checkInResult = (if shouldCheckIn s True \<and> v_success ?v' \<noteq> None
                                then Some ?v' else None) \<rparr>"
    and st2: "st2 = touchSite s (nowMs W')
        (sendModelChangeNotification R (name s) ?d
           ((createSnapshot (successRow R st1 s (nowMs W') fr b ?v') st1)
              \<lparr> modelDiffs := modelDiffs st1 @ [?md] \<rparr>))"
    by simp_all
  have sent: "sent st2 = sent st1 @
           (case mailSetup R st1 of
              None \<Rightarrow> []
            | Some (apiKey, emails) \<Rightarrow>
                [\<lparr> apiKeyUsed = apiKey, recipients = emails, content = SingleSite (name s) ?d \<rparr>])"
    unfolding st2 using ne
    by (simp add: sendModelChangeNotification_def mailSetup_updates touchSite_def createSnapshot_def
        split: option.splits prod.splits)
  have diffs: "modelDiffs st2 = modelDiffs st1 @ [?md]"
    unfolding st2
    by (simp add: sendModelChangeNotification_def touchSite_def createSnapshot_def
        split: option.splits prod.splits)
  have first: "snapshots st1 = snapshots st @ [?row]" "modelDiffs st1 = modelDiffs st"
    "sent st1 = sent st"
    by (simp_all add: st1 touchSite_def createSnapshot_def)
  show ?thesis
    apply (rule exI [of _ ?row])
    apply (rule exI [of _ "\<lparr> r_ok = True, hasChanges = True, r_diff = Some ?d,
             r_siteName = name s, checkInOnly = None,
             checkInChanged = Some (checkInChange (shouldCheckIn s True) (Some ?row) ?v'),
             r_checkInResult = (if shouldCheckIn s True \<and> v_success ?v' \<noteq> None
                                then Some ?v' else None) \<rparr>"])
    apply (rule exI [of _ ?d])
    apply (rule exI [of _ ?md])
    using first row last res' ne keys diffs sent
    apply simp
    done
qed

text \<open>
  A Veloera site set to check in only: the scheduled run, then a manual check whose
  upstream lists two models.
\<close>

lemma siteV_facts:
  "apiKeyEnc siteV = None" "\<not> shouldCheckModels siteV False" "id_site siteV = ''v''"
  "billingPromises R W siteV = Inr NoBilling"
  "fetchModelsFunc R W siteV = fetchModelsNewapi W ''veloera''"
  "\<not> summaryThrows siteV b" "name siteV = ''V''"
  by (simp_all add: siteV_def site0_def shouldCheckModels_def strOr_def
      billingPromises_def fetchModelsFunc_def summaryThrows_def)

lemma veloera_eval:
  "fetchModelsNewapi (listing [modelA, modelB]) ''veloera'' =
     Inr \<lparr> models = [JObj [(''id'', JStr ''a''), (''object'', JStr ''model''),
                            (''owned_by'', JStr ''x''), (''created'', JNum 1)],
                      JObj [(''id'', JStr ''b''), (''object'', JStr ''model''),
                            (''owned_by'', JStr ''x''), (''created'', JNum 1)]],
           rawResponse = stringify lib0 (JObj [(''success'', JBool True),
                            (''data'', JArr [modelA, modelB])]),
           statusCode = 200, responseTime = 120 \<rparr>"
  by (simp add: fetchModelsNewapi_def listing_def world0_def respondJson_def ok_def
      created_def jsor_def modelA_def modelB_def)

lemma trim_plain:
  assumes "\<not> isSpace (hd s)" "\<not> isSpace (last s)"
  shows "trim s = s"
proof -
  have "dropWhile isSpace s = s"
    using assms(1) by (cases s) simp_all
  moreover have "dropWhile isSpace (rev s) = rev s"
    using assms(2) by (cases s rule: rev_cases) simp_all
  ultimately show ?thesis by (simp add: trim_def)
qed

lemma mailSetup_state0:
  "mailSetup runtime0 state0 = Some (''re_test'', [JStr ''ops@example.com''])"
proof -
  have d: "decryptR runtime0 (resendApiKeyEnc mailOn) = Inr ''re_test''"
    using decrypt_encrypt [OF toy_facts(1-3) toy_facts(4), of "''re_test''"]
    by (simp add: decryptR_def runtime0_def mailOn_def)
  have t: "trim ''ops@example.com'' = ''ops@example.com''"
    by (rule trim_plain) (simp_all add: isSpace_def)
  have p: "parseRecipients mailOn = Inr [JStr ''ops@example.com'']"
    by (simp add: parseRecipients_def mailOn_def strOr_def t Let_def)
  show ?thesis
    using d p by (simp add: mailSetup_def state0_def) (simp add: mailOn_def)
qed

theorem checkin_only_snapshot_is_baseline_witness:
  "\<exists>r st1 r' st2.
       checkSite runtime0 world0 siteV scheduled state0 = (Inr r, st1)
     \<and> checkInOnly r = Some True
     \<and> map hash (snapshots st1) = [[]] \<and> map modelsJson (snapshots st1) = [JArr []]
     \<and> map errorMessage (snapshots st1) = [None]
     \<and> checkSite runtime0 (listing [modelA, modelB]) siteV manual st1 = (Inr r', st2)
     \<and> hasChanges r'
     \<and> map snapshotFromId (modelDiffs st2) = map id_snap (snapshots st1)
     \<and> map recipients (sent st2) = [[JStr ''ops@example.com'']]"
proof -
  let ?W' = "listing [modelA, modelB]"
  have k: "decryptR runtime0 (apiKeyEnc siteV) = Inr []"
    by (simp add: siteV_facts decryptR_None)
  obtain r st1 where c1: "checkSite runtime0 world0 siteV scheduled state0 = (Inr r, st1)"
    and r: "checkInOnly r = Some True"
    using checkSite_checkin_only [OF k, of scheduled world0 state0]
    by (simp add: scheduled_def siteV_facts)
  obtain fr where fr: "fetchModelsNewapi ?W' ''veloera'' = Inr fr"
    and ms: "models fr = [JObj [(''id'', JStr ''a''), (''object'', JStr ''model''),
                            (''owned_by'', JStr ''x''), (''created'', JNum 1)],
                      JObj [(''id'', JStr ''b''), (''object'', JStr ''model''),
                            (''owned_by'', JStr ''x''), (''created'', JNum 1)]]"
    using veloera_eval by simp
  have t: "tryFetch runtime0 ?W' siteV NoBilling
             = Inr (fr, \<lparr> b_limit = JNull, b_usage = JNull, b_error = None \<rparr>)"
    by (simp add: tryFetch_def siteV_facts fr settleBilling_def)
  have l: "models fr \<noteq> []" "\<forall>m \<in> set (models fr). \<not> nullish m"
    by (simp_all add: ms)
  have o: "\<forall>x \<in> set (snapshots state0). siteId x = id_site siteV \<and> errorMessage x = None
             \<longrightarrow> fetchedAt x < nowMs world0"
    by (simp add: state0_def)
  obtain res' st2 where c2: "checkSite runtime0 ?W' siteV manual st1 = (res', st2)"
    by (cases "checkSite runtime0 ?W' siteV manual st1")
  from checkin_only_snapshot_is_baseline
    [OF k siteV_facts(2) o c1 [unfolded scheduled_def] siteV_facts(4) t l c2 [unfolded manual_def]]
  obtain row r' d md where
    "snapshots st1 = snapshots state0 @ [row]" "modelsJson row = JArr []" "hash row = []"
    "errorMessage row = None" "sent st1 = sent state0"
    "res' = Inr r'" "hasChanges r'" "modelDiffs st1 = modelDiffs state0"
    "modelDiffs st2 = modelDiffs st1 @ [md]" "snapshotFromId md = id_snap row"
    "sent st2 = sent st1 @
           (case mailSetup runtime0 st1 of
              None \<Rightarrow> []
            | Some (apiKey, emails) \<Rightarrow>
                [\<lparr> apiKeyUsed = apiKey, recipients = emails, content = SingleSite (name siteV) d \<rparr>])"
    by blast
  moreover have "mailSetup runtime0 st1 = mailSetup runtime0 state0"
    using checkSite_checkin_only [OF k, of scheduled world0 state0] c1
    by (auto simp: scheduled_def siteV_facts touchSite_def createSnapshot_def mailSetup_updates)
  ultimately show ?thesis
    using c1 c2 r by (simp add: mailSetup_state0) (simp add: state0_def)
qed

section \<open>The global batch\<close>












lemma changesOf_Nil: "(changesOf os = []) = (\<forall>(s, x) \<in> set os. \<forall>r. x = Inr r \<longrightarrow> \<not> (hasChanges r \<and> r_diff r \<noteq> None))"
  by (induction os rule: changesOf.induct) (auto split: option.splits)


text \<open>
  A run over three sites: the first has two new models, the request to the second
  fails, the third is checked for the first time. The hash stored for the first site is
  the digest of the empty list.
\<close>

lemma hash_empty:
  "hashModels lib0 [] = ''4f53cda18c2baa0c0354bb5f9a3ecbe5ed12ab4d8e11ba873c2f11161202b945''"
  by code_simp










section \<open>Decryption failures\<close>






end
